theory Spec2Isabelle
  imports Complex_Main "HOL-Library.Sublist" "HOL-Library.AList"
begin

section \<open>Go string library functions used by the schema compiler\<close>

text \<open>
  Go strings are byte sequences; they are modelled as \<open>string\<close> (a list of 8-bit
  characters). All separators and patterns the source uses are ASCII.
\<close>

text \<open>\<^verbatim>\<open>strings.Split(s, sep)\<close> for a one-byte separator (the source only splits at
  \<^verbatim>\<open>":"\<close>, \<^verbatim>\<open>","\<close> and \<^verbatim>\<open>" "\<close>): the pieces around every occurrence of the
  separator; a string without separator gives one piece, the empty string gives one empty piece.\<close>

fun Split :: "string \<Rightarrow> char \<Rightarrow> string list" where
  "Split [] sep = [[]]"
| "Split (c # cs) sep =
     (if c = sep then [] # Split cs sep
      else (case Split cs sep of
              [] \<Rightarrow> [[c]]
            | p # ps \<Rightarrow> (c # p) # ps))"

text \<open>\<^verbatim>\<open>strings.Replace(s, old, new, -1)\<close> for a non-empty \<open>old\<close>: every non-overlapping
  occurrence, found from the left, is replaced.\<close>

fun Replace :: "string \<Rightarrow> string \<Rightarrow> string \<Rightarrow> string" where
  "Replace [] old new = []"
| "Replace (c # cs) old new =
     (if old \<noteq> [] \<and> prefix old (c # cs)
      then new @ Replace (drop (length old - 1) cs) old new
      else c # Replace cs old new)"

definition HasPrefix :: "string \<Rightarrow> string \<Rightarrow> bool" where
  "HasPrefix s p = prefix p s"

definition TrimPrefix :: "string \<Rightarrow> string \<Rightarrow> string" where
  "TrimPrefix s p = (if prefix p s then drop (length p) s else s)"

definition TrimSuffix :: "string \<Rightarrow> string \<Rightarrow> string" where
  "TrimSuffix s x = (if suffix x s then take (length s - length x) s else s)"

section \<open>Tag expression parser\<close>

text \<open>The private sentinel that stands for a protected separator.\<close>

definition sentinel :: string where
  "sentinel = ''|||||''"

text \<open>
  One call of \<^verbatim>\<open>re.ReplaceAllString(s, "$1|||||$2")\<close> for a regular expression of the shape
  \<^verbatim>\<open>(OPEN[^STOP]*)SEP([^STOP]*STOP)\<close>, which covers both expressions of the parser:
  \<^verbatim>\<open>(:"[^"]*) ([^"]*")\<close> in \<open>splitTags\<close> and \<^verbatim>\<open>(\([^\)]*),([^\)]*\))\<close> in
  \<open>splitTagValues\<close>. Go's matching is leftmost-first with greedy stars: a match starts at the
  leftmost \<open>OPEN\<close> whose following run of non-\<open>STOP\<close> bytes is closed by \<open>STOP\<close> and holds a
  \<open>SEP\<close>; the first group then reaches to the last \<open>SEP\<close> of that run. The match is replaced
  by itself with that last \<open>SEP\<close> turned into the sentinel, and the search goes on behind the
  closing \<open>STOP\<close>. Where no match starts, the byte is copied.
\<close>

definition splitLast :: "char \<Rightarrow> string \<Rightarrow> (string \<times> string) option" where
  "splitLast sep run =
     (if sep \<in> set run
      then Some (rev (tl (dropWhile (\<lambda>x. x \<noteq> sep) (rev run))),
                 rev (takeWhile (\<lambda>x. x \<noteq> sep) (rev run)))
      else None)"

function reReplaceAll :: "string \<Rightarrow> char \<Rightarrow> char \<Rightarrow> string \<Rightarrow> string" where
  "reReplaceAll opn stop sep [] = []"
| "reReplaceAll opn stop sep (c # cs) =
     (if prefix opn (c # cs) then
        (let body = drop (length opn) (c # cs);
             run = takeWhile (\<lambda>x. x \<noteq> stop) body;
             rest = dropWhile (\<lambda>x. x \<noteq> stop) body
         in case rest of
              [] \<Rightarrow> c # reReplaceAll opn stop sep cs
            | _ # rest' \<Rightarrow>
                (case splitLast sep run of
                   None \<Rightarrow> c # reReplaceAll opn stop sep cs
                 | Some (b, a) \<Rightarrow>
                     opn @ b @ sentinel @ a @ [stop] @ reReplaceAll opn stop sep rest'))
      else c # reReplaceAll opn stop sep cs)"
  by pat_completeness auto
termination
proof (relation "measure (\<lambda>(opn, stop, sep, s). length s)")
  fix opn :: string and stop sep c :: char and cs body run rest :: string and x :: char and rest' :: string
  assume "rest = dropWhile (\<lambda>x. x \<noteq> stop) body" and "body = drop (length opn) (c # cs)"
    and "rest = x # rest'"
  then have "length (x # rest') \<le> length (c # cs)"
    by (metis length_dropWhile_le length_drop diff_le_self le_trans)
  then show "((opn, stop, sep, rest'), (opn, stop, sep, c # cs))
      \<in> measure (\<lambda>(opn, stop, sep, s). length s)"
    by simp
qed auto

text \<open>A pass never adds a separator, and a pass that changes the string removes one: this is
  what makes the fixed-point loops of the parser stop.\<close>

lemma splitLast_SomeD:
  "splitLast sep run = Some (b, a) \<Longrightarrow> run = b @ sep # a \<and> sep \<notin> set a"
proof -
  assume h: "splitLast sep run = Some (b, a)"
  then have m: "sep \<in> set run" by (auto simp: splitLast_def split: if_splits)
  let ?r = "rev run"
  from h m have b: "b = rev (tl (dropWhile (\<lambda>x. x \<noteq> sep) ?r))"
    and a: "a = rev (takeWhile (\<lambda>x. x \<noteq> sep) ?r)"
    by (auto simp: splitLast_def)
  from m have "dropWhile (\<lambda>x. x \<noteq> sep) ?r \<noteq> []" by (auto simp: dropWhile_eq_Nil_conv)
  moreover have "dropWhile (\<lambda>x. x \<noteq> sep) ?r \<noteq> [] \<Longrightarrow> hd (dropWhile (\<lambda>x. x \<noteq> sep) ?r) = sep"
    using hd_dropWhile[of "\<lambda>x. x \<noteq> sep" ?r] by simp
  ultimately have d: "dropWhile (\<lambda>x. x \<noteq> sep) ?r = sep # tl (dropWhile (\<lambda>x. x \<noteq> sep) ?r)"
    by (metis list.collapse)
  have "?r = takeWhile (\<lambda>x. x \<noteq> sep) ?r @ dropWhile (\<lambda>x. x \<noteq> sep) ?r" by simp
  then have "?r = rev a @ sep # rev b" using a b d by simp
  then have "rev ?r = rev (rev a @ sep # rev b)" by simp
  then have "run = b @ sep # a" by simp
  moreover have "sep \<notin> set a" using a by (auto dest: set_takeWhileD)
  ultimately show ?thesis by simp
qed

lemma reReplaceAll_count:
  "sep \<noteq> CHR ''|'' \<Longrightarrow>
   count_list (reReplaceAll opn stop sep s) sep \<le> count_list s sep \<and>
   (reReplaceAll opn stop sep s \<noteq> s \<longrightarrow> count_list (reReplaceAll opn stop sep s) sep < count_list s sep)"
proof (induction opn stop sep s rule: reReplaceAll.induct)
  case (1 opn stop sep)
  then show ?case by simp
next
  case (2 opn stop sep c cs)
  let ?body = "drop (length opn) (c # cs)"
  let ?run = "takeWhile (\<lambda>x. x \<noteq> stop) ?body"
  let ?rest = "dropWhile (\<lambda>x. x \<noteq> stop) ?body"
  show ?case
  proof (cases "prefix opn (c # cs) \<and> ?rest \<noteq> [] \<and> splitLast sep ?run \<noteq> None")
    case False
    then consider (a) "\<not> prefix opn (c # cs)" | (b) "prefix opn (c # cs)" "?rest = []"
      | (c) x rest' where "prefix opn (c # cs)" "?rest = x # rest'" "splitLast sep ?run = None"
      by (cases ?rest; cases "splitLast sep ?run") auto
    then have "reReplaceAll opn stop sep (c # cs) = c # reReplaceAll opn stop sep cs \<and>
      count_list (reReplaceAll opn stop sep cs) sep \<le> count_list cs sep \<and>
      (reReplaceAll opn stop sep cs \<noteq> cs \<longrightarrow> count_list (reReplaceAll opn stop sep cs) sep < count_list cs sep)"
    proof cases
      case a
      then show ?thesis using 2(4)[OF a 2(5)] by simp
    next
      case b
      then show ?thesis using 2(1)[OF b(1) refl refl refl b(2) 2(5)] by (simp add: Let_def del: dropWhile_eq_Nil_conv)
    next
      case c
      then show ?thesis using 2(2)[OF c(1) refl refl refl c(2,3) 2(5)] by (simp add: Let_def del: dropWhile_eq_Nil_conv)
    qed
    then show ?thesis by auto
  next
    case True
    then obtain x rest' b a where r: "?rest = x # rest'" and sl: "splitLast sep ?run = Some (b, a)"
      and p: "prefix opn (c # cs)"
      by (cases ?rest) auto
    have e: "reReplaceAll opn stop sep (c # cs) = opn @ b @ sentinel @ a @ [stop] @ reReplaceAll opn stop sep rest'"
      using r sl p by (simp add: Let_def)
    have xs: "x = stop" using hd_dropWhile[of "\<lambda>x. x \<noteq> stop" ?body] r by simp
    have "c # cs = opn @ ?body" using p by (metis append_take_drop_id prefix_def append_eq_conv_conj)
    also have "?body = ?run @ ?rest" by simp
    finally have o: "c # cs = opn @ b @ sep # a @ stop # rest'"
      using r xs splitLast_SomeD[OF sl] by simp
    have ih: "count_list (reReplaceAll opn stop sep rest') sep \<le> count_list rest' sep"
      using 2(3)[OF p refl refl refl r sl refl 2(5)] by simp
    have "count_list (reReplaceAll opn stop sep (c # cs)) sep < count_list (c # cs) sep"
    proof -
      have "count_list (opn @ b @ sentinel @ a @ [stop] @ reReplaceAll opn stop sep rest') sep
            < count_list (opn @ b @ sep # a @ stop # rest') sep"
        using ih 2(5) by (auto simp: sentinel_def)
      then show ?thesis using e o by simp
    qed
    then show ?thesis by simp
  qed
qed


text \<open>
  \<^verbatim>\<open>re := regexp.MustCompile(`(:"[^"]*) ([^"]*")`)\<close> of \<open>splitTags\<close> and
  \<^verbatim>\<open>re := regexp.MustCompile(`(\([^\)]*),([^\)]*\))`)\<close> of \<open>splitTagValues\<close>.
\<close>

definition reTags :: "string \<Rightarrow> string" where
  \<open>reTags s = reReplaceAll '':"'' (CHR ''"'') (CHR '' '') s\<close>

definition reTagValues :: "string \<Rightarrow> string" where
  "reTagValues s = reReplaceAll ''('' (CHR '')'') (CHR '','') s"

text \<open>The loops \<^verbatim>\<open>for true { newResult := ...; if newResult != result {...} else { break } }\<close>.\<close>

function splitTagsLoop :: "string \<Rightarrow> string" where
  "splitTagsLoop result =
     (let newResult = reTags result
      in if newResult \<noteq> result then splitTagsLoop newResult else result)"
  by pat_completeness auto
termination
  by (relation "measure (\<lambda>s. count_list s (CHR '' ''))")
     (use reReplaceAll_count[of "CHR '' ''"] in \<open>auto simp: reTags_def\<close>)

function splitTagValuesLoop :: "string \<Rightarrow> string" where
  "splitTagValuesLoop result =
     (let newResult = reTagValues result
      in if newResult \<noteq> result then splitTagValuesLoop newResult else result)"
  by pat_completeness auto
termination
  by (relation "measure (\<lambda>s. count_list s (CHR '',''))")
     (use reReplaceAll_count[of "CHR '',''"] in \<open>auto simp: reTagValues_def\<close>)

definition splitTagValues :: "string \<Rightarrow> string list" where
  "splitTagValues s =
     (let result = splitTagValuesLoop (reTagValues s);
          h = Split result (CHR '','')
      in map (\<lambda>v. Replace v sentinel '','') h)"

definition splitTags :: "string \<Rightarrow> string list" where
  "splitTags s =
     (let result = splitTagsLoop (reTags s);
          h = Split result (CHR '' '')
      in map (\<lambda>v. Replace v sentinel '' '') h)"

text \<open>\<open>tagValue\<close>: the first token \<open>key:value\<close> with exactly one colon whose key is the one asked
  for gives the value, one quote removed at its end and one at its start; otherwise \<^verbatim>\<open>""\<close>.\<close>

fun tagValueLoop :: "string \<Rightarrow> string list \<Rightarrow> string" where
  "tagValueLoop key [] = []"
| \<open>tagValueLoop key (tag # tags) =
     (let parts = Split tag (CHR '':'')
      in if length parts \<noteq> 2 then tagValueLoop key tags
         else if parts ! 0 = key then TrimPrefix (TrimSuffix (parts ! 1) ''"'') ''"''
         else tagValueLoop key tags)\<close>

definition tagValue :: "string \<Rightarrow> string \<Rightarrow> string" where
  "tagValue key allTags = tagValueLoop key (splitTags allTags)"

definition hasTagArg :: "string \<Rightarrow> string \<Rightarrow> bool" where
  "hasTagArg needle haystack =
     (\<exists>check \<in> set (splitTagValues haystack). check = needle \<or> HasPrefix check (needle @ ''(''))"

fun tagArgsLoop :: "string \<Rightarrow> string list \<Rightarrow> string" where
  "tagArgsLoop needle [] = []"
| "tagArgsLoop needle (check # h) =
     (if HasPrefix check (needle @ ''('')
      then TrimPrefix (TrimSuffix check '')'') (needle @ ''('')
      else tagArgsLoop needle h)"

definition tagArgs :: "string \<Rightarrow> string \<Rightarrow> string" where
  "tagArgs needle haystack = tagArgsLoop needle (splitTagValues haystack)"

section \<open>Name normalizer\<close>

definition isUpperAZ :: "char \<Rightarrow> bool" where
  "isUpperAZ c = (65 \<le> (of_char c :: nat) \<and> (of_char c :: nat) \<le> 90)"

definition isLowerAZ :: "char \<Rightarrow> bool" where
  "isLowerAZ c = (97 \<le> (of_char c :: nat) \<and> (of_char c :: nat) \<le> 122)"

text \<open>\<^verbatim>\<open>strings.ToLower\<close> on ASCII text: the letters \<open>A\<close> to \<open>Z\<close> are mapped, every other byte is
  kept (Go also maps upper-case letters beyond ASCII; identifiers with such letters are outside
  this model).\<close>

definition ToLower :: "string \<Rightarrow> string" where
  "ToLower s = map (\<lambda>c. if isUpperAZ c then char_of (of_char c + (32 :: nat)) else c) s"

text \<open>\<^verbatim>\<open>regexp.MustCompile(`([a-z])([A-Z]{2,})`).ReplaceAllString(camel, `${1}_${2}`)\<close>: a lower-case
  letter followed by a (greedy, so maximal) run of at least two capitals gets \<open>_\<close> between the
  letter and the run; the search goes on behind the run.\<close>

function reAcronym :: "string \<Rightarrow> string" where
  "reAcronym [] = []"
| "reAcronym (c # cs) =
     (if isLowerAZ c \<and> 2 \<le> length (takeWhile isUpperAZ cs)
      then c # CHR ''_'' # takeWhile isUpperAZ cs @ reAcronym (dropWhile isUpperAZ cs)
      else c # reAcronym cs)"
  by pat_completeness auto
termination
  by (relation "measure length") (auto simp: less_Suc_eq_le length_dropWhile_le)

text \<open>\<^verbatim>\<open>regexp.MustCompile(`([A-Z][a-z])`).ReplaceAllString(camel, `_$1`)\<close>.\<close>

fun reWord :: "string \<Rightarrow> string" where
  "reWord (a # b # cs) =
     (if isUpperAZ a \<and> isLowerAZ b then CHR ''_'' # a # b # reWord cs
      else a # reWord (b # cs))"
| "reWord cs = cs"

definition TagSnakeName :: string where "TagSnakeName = ''snake''"

definition snakeCase :: "string \<Rightarrow> string \<Rightarrow> string" where
  "snakeCase camel allTags =
     (let snakeName = tagValue TagSnakeName allTags
      in if snakeName \<noteq> [] then snakeName
         else let camel1 = Replace camel ''IDs'' ''Ids'';
                  camel2 = reAcronym camel1
              in TrimPrefix (ToLower (reWord camel2)) ''_'')"

section \<open>Go number parsing (\<^verbatim>\<open>strconv\<close>, \<^verbatim>\<open>math/big\<close>)\<close>

datatype parseError = ErrSyntax | ErrRange | ErrEOF | ErrNoDigits | ErrExpectedEnd | ErrExponentOverflow

definition isDigit :: "char \<Rightarrow> bool" where
  "isDigit c = (48 \<le> (of_char c :: nat) \<and> (of_char c :: nat) \<le> 57)"

definition digitVal :: "char \<Rightarrow> int" where
  "digitVal c = of_char c - 48"

text \<open>The hexadecimal letters \<open>a\<close> to \<open>f\<close> and \<open>A\<close> to \<open>F\<close>, and their value.\<close>

definition isHexLetter :: "char \<Rightarrow> bool" where
  "isHexLetter c = ((97 \<le> (of_char c :: nat) \<and> (of_char c :: nat) \<le> 102) \<or>
                    (65 \<le> (of_char c :: nat) \<and> (of_char c :: nat) \<le> 70))"

definition hexLetterVal :: "char \<Rightarrow> int" where
  "hexLetterVal c = (if 97 \<le> (of_char c :: nat) then of_char c - 87 else of_char c - 55)"

definition isSign :: "char \<Rightarrow> bool" where
  "isSign c = (c = CHR ''+'' \<or> c = CHR ''-'')"

subsection \<open>\<^verbatim>\<open>strconv.ParseBool\<close>\<close>

definition ParseBool :: "string \<Rightarrow> parseError + bool" where
  "ParseBool str =
     (if str \<in> set [''1'', ''t'', ''T'', ''TRUE'', ''true'', ''True''] then Inr True
      else if str \<in> set [''0'', ''f'', ''F'', ''FALSE'', ''false'', ''False''] then Inr False
      else Inl ErrSyntax)"

subsection \<open>\<^verbatim>\<open>strconv.ParseInt(s, 10, 64)\<close>\<close>

text \<open>\<^verbatim>\<open>ParseUint\<close> in base 10: digits only; the error is \<open>ErrRange\<close> as soon as the
  accumulated value leaves 64 bits.\<close>

fun ParseUintLoop :: "int \<Rightarrow> string \<Rightarrow> parseError + int" where
  "ParseUintLoop n [] = Inr n"
| "ParseUintLoop n (c # cs) =
     (if \<not> isDigit c then Inl ErrSyntax
      else if 2 ^ 64 \<le> n * 10 + digitVal c then Inl ErrRange
      else ParseUintLoop (n * 10 + digitVal c) cs)"

definition ParseUint :: "string \<Rightarrow> parseError + int" where
  "ParseUint s = (if s = [] then Inl ErrSyntax else ParseUintLoop 0 s)"

text \<open>The result is a 64-bit signed integer, modelled as an \<open>int\<close> inside the range that the
  function checks. With bit size 0 (as in \<open>schemaLevelOptions\<close>) Go takes the size of \<^verbatim>\<open>int\<close>,
  64 bits on the platforms considered.\<close>

definition ParseInt :: "string \<Rightarrow> parseError + int" where
  "ParseInt s =
     (if s = [] then Inl ErrSyntax
      else let neg = (hd s = CHR ''-'');
               s1 = (if isSign (hd s) then tl s else s)
           in case ParseUint s1 of
                Inl ErrRange \<Rightarrow> Inl ErrRange
              | Inl e \<Rightarrow> Inl e
              | Inr un \<Rightarrow>
                  if \<not> neg \<and> 2 ^ 63 \<le> un then Inl ErrRange
                  else if neg \<and> 2 ^ 63 < un then Inl ErrRange
                  else Inr (if neg then - un else un))"

subsection \<open>\<^verbatim>\<open>strconv.ParseFloat(s, 64)\<close>\<close>

text \<open>
  A finite \<^verbatim>\<open>float64\<close> is modelled by its value, a rational number; \<open>ParseFloat\<close> gives the
  binary64 number nearest to the literal (ties to even), as Go does. The two zeros are one
  value here.
\<close>

datatype float64 = Finite rat | PosInf | NegInf | NaN

definition commonPrefixLenIgnoreCase :: "string \<Rightarrow> string \<Rightarrow> nat" where
  "commonPrefixLenIgnoreCase s pre =
     length (takeWhile (\<lambda>(c, p). (if isUpperAZ c then char_of (of_char c + (32 :: nat)) else c) = p)
                       (zip s pre))"

text \<open>\<^verbatim>\<open>special\<close>: the value and the number of bytes read when the string starts with an
  infinity or a NaN.\<close>

definition special :: "string \<Rightarrow> (float64 \<times> nat) option" where
  "special s =
     (if s = [] then None
      else if isSign (hd s) \<or> hd s = CHR ''i'' \<or> hd s = CHR ''I'' then
        (let nsign = (if isSign (hd s) then 1 else 0 :: nat);
             n0 = commonPrefixLenIgnoreCase (drop nsign s) ''infinity'';
             n = (if 3 < n0 \<and> n0 < 8 then 3 else n0)
         in if n = 3 \<or> n = 8
            then Some (if hd s = CHR ''-'' then NegInf else PosInf, nsign + n)
            else None)
      else if hd s = CHR ''n'' \<or> hd s = CHR ''N'' then
        (if commonPrefixLenIgnoreCase s ''nan'' = 3 then Some (NaN, 3) else None)
      else None)"

text \<open>The mantissa loop of \<^verbatim>\<open>readFloat\<close>: digits, underscores and at most one point. The
  result is: whether a digit was seen, whether an underscore was seen, the digits read as a
  number, how many of them stand behind the point, and the unread rest.\<close>

fun readDigits :: "bool \<Rightarrow> bool \<Rightarrow> bool \<Rightarrow> bool \<Rightarrow> int \<Rightarrow> nat \<Rightarrow> string
    \<Rightarrow> bool \<times> bool \<times> int \<times> nat \<times> string" where
  "readDigits hex sawdot sawdigits us m f [] = (sawdigits, us, m, f, [])"
| "readDigits hex sawdot sawdigits us m f (c # cs) =
     (if c = CHR ''_'' then readDigits hex sawdot sawdigits True m f cs
      else if c = CHR ''.'' then
        (if sawdot then (sawdigits, us, m, f, c # cs)
         else readDigits hex True sawdigits us m f cs)
      else if isDigit c then
        readDigits hex sawdot True us (m * (if hex then 16 else 10) + digitVal c)
          (if sawdot then Suc f else f) cs
      else if hex \<and> isHexLetter c then
        readDigits hex sawdot True us (m * 16 + hexLetterVal c) (if sawdot then Suc f else f) cs
      else (sawdigits, us, m, f, c # cs))"

text \<open>The exponent digits; the exponent stops growing at 10000.\<close>

fun readExpDigits :: "bool \<Rightarrow> int \<Rightarrow> string \<Rightarrow> bool \<times> int \<times> string" where
  "readExpDigits us e [] = (us, e, [])"
| "readExpDigits us e (c # cs) =
     (if isDigit c then readExpDigits us (if e < 10000 then e * 10 + digitVal c else e) cs
      else if c = CHR ''_'' then readExpDigits True e cs
      else (us, e, c # cs))"

text \<open>\<^verbatim>\<open>underscoreOK\<close>: an underscore must stand between digits (or behind a base prefix).\<close>

fun underscoreLoop :: "bool \<Rightarrow> char \<Rightarrow> string \<Rightarrow> bool" where
  "underscoreLoop hex saw [] = (saw \<noteq> CHR ''_'')"
| "underscoreLoop hex saw (c # cs) =
     (if isDigit c \<or> (hex \<and> isHexLetter c) then underscoreLoop hex (CHR ''0'') cs
      else if c = CHR ''_'' then (if saw \<noteq> CHR ''0'' then False else underscoreLoop hex (CHR ''_'') cs)
      else if saw = CHR ''_'' then False
      else underscoreLoop hex (CHR ''!'') cs)"

definition underscoreOK :: "string \<Rightarrow> bool" where
  "underscoreOK s =
     (let s1 = (if s \<noteq> [] \<and> isSign (hd s) then tl s else s)
      in if 2 \<le> length s1 \<and> hd s1 = CHR ''0'' \<and> s1 ! 1 \<in> set ''bBoOxX''
         then underscoreLoop (s1 ! 1 \<in> set ''xX'') (CHR ''0'') (drop 2 s1)
         else underscoreLoop False (CHR ''^'') s1)"

text \<open>\<^verbatim>\<open>readFloat\<close>: sign, optional \<^verbatim>\<open>0x\<close>, mantissa, optional exponent (\<^verbatim>\<open>e\<close>, or \<^verbatim>\<open>p\<close>
  for a hexadecimal mantissa, where it is mandatory). The result holds the sign, the base, the
  mantissa digits as a number, the count of fraction digits, the signed exponent and the
  unread rest; \<open>None\<close> stands for \<^verbatim>\<open>ok = false\<close>.\<close>

definition readFloat :: "string \<Rightarrow> (bool \<times> bool \<times> int \<times> nat \<times> int \<times> string) option" where
  "readFloat s =
     (if s = [] then None
      else
        let neg = (hd s = CHR ''-'');
            s1 = (if isSign (hd s) then tl s else s);
            hex = (2 < length s1 \<and> hd s1 = CHR ''0'' \<and> s1 ! 1 \<in> set ''xX'');
            s2 = (if hex then drop 2 s1 else s1)
        in case readDigits hex False False False 0 0 s2 of
             (sawdigits, us, m, f, s3) \<Rightarrow>
               if \<not> sawdigits then None
               else if s3 \<noteq> [] \<and> hd s3 \<in> set (if hex then ''pP'' else ''eE'') then
                 (let s4 = tl s3
                  in if s4 = [] then None
                     else
                       let esign = (if hd s4 = CHR ''-'' then - 1 else 1 :: int);
                           s5 = (if isSign (hd s4) then tl s4 else s4)
                       in if s5 = [] \<or> \<not> isDigit (hd s5) then None
                          else case readExpDigits us 0 s5 of
                                 (us', e, s6) \<Rightarrow>
                                   if us' \<and> \<not> underscoreOK (take (length s - length s6) s)
                                   then None
                                   else Some (neg, hex, m, f, esign * e, s6))
               else if hex then None
               else if us \<and> \<not> underscoreOK (take (length s - length s3) s) then None
               else Some (neg, hex, m, f, 0, s3))"

definition powInt :: "rat \<Rightarrow> int \<Rightarrow> rat" where
  "powInt b k = (if 0 \<le> k then b ^ nat k else 1 / b ^ nat (- k))"

text \<open>The exact value of what \<open>readFloat\<close> has read.\<close>

definition floatValue :: "bool \<Rightarrow> bool \<Rightarrow> int \<Rightarrow> nat \<Rightarrow> int \<Rightarrow> rat" where
  "floatValue neg hex m f e =
     (let v = (if hex then rat_of_int m * powInt 2 (e - 4 * int f)
               else rat_of_int m * powInt 10 (e - int f))
      in if neg then - v else v)"

text \<open>The number of bits of a positive integer.\<close>

function bitLen :: "int \<Rightarrow> int" where
  "bitLen n = (if n \<le> 0 then 0 else 1 + bitLen (n div 2))"
  by pat_completeness auto
termination
  by (relation "measure nat") auto

text \<open>For a positive rational \<open>r\<close>, the exponent \<open>e\<close> with \<open>2^e \<le> r < 2^(e+1)\<close>: the bit lengths
  of numerator and denominator give it up to one.\<close>

definition floorLog2 :: "rat \<Rightarrow> int" where
  "floorLog2 r =
     (let k = bitLen (fst (quotient_of r)) - bitLen (snd (quotient_of r))
      in if powInt 2 k \<le> r then k else k - 1)"

text \<open>Rounding to the nearest integer, ties to the even one.\<close>

definition roundHalfEven :: "rat \<Rightarrow> int" where
  "roundHalfEven x =
     (let n = \<lfloor>x\<rfloor>; d = x - rat_of_int n
      in if d < 1 / 2 then n else if 1 / 2 < d then n + 1 else if even n then n else n + 1)"

text \<open>Rounding to a binary floating-point format with 53 bits of mantissa, ties to even; the
  exponent of the last bit is not below \<open>emin\<close>.\<close>

definition roundBinary :: "int \<Rightarrow> rat \<Rightarrow> rat" where
  "roundBinary emin r =
     (if r = 0 then 0
      else let q = max (floorLog2 \<bar>r\<bar> - 52) emin;
               v = rat_of_int (roundHalfEven (\<bar>r\<bar> * powInt 2 (- q))) * powInt 2 q
           in if r < 0 then - v else v)"

text \<open>The nearest \<^verbatim>\<open>float64\<close>: the last bit of a subnormal number has the exponent \<open>-1074\<close>.\<close>

definition roundFloat64 :: "rat \<Rightarrow> rat" where
  "roundFloat64 r = roundBinary (- 1074) r"

text \<open>The least magnitude that rounds to an infinity: \<open>2^1024 - 2^970\<close>, halfway between the
  largest \<^verbatim>\<open>float64\<close> and \<open>2^1024\<close>.\<close>

definition float64Overflow :: rat where
  "float64Overflow =
     179769313486231580793728971405303415079934132710037826936173778980444968292764750946649017977587207096330286416692887910946555547851940402630657488671505820681908902000708383676273854845817711531764475730270069855571366959622842914819860834936475292719074168444365510704342711559699508093042880177904174497792"

lemma float64Overflow_eq: "float64Overflow = 2 ^ 1024 - 2 ^ 970"
  by (simp add: float64Overflow_def)

text \<open>\<open>ParseFloat\<close>: the whole string must have been read; a value that rounds to an
  infinity is a range error; otherwise the result is the nearest \<^verbatim>\<open>float64\<close>.\<close>

definition ParseFloat :: "string \<Rightarrow> parseError + float64" where
  "ParseFloat s =
     (case special s of
        Some (val, n) \<Rightarrow> if n \<noteq> length s then Inl ErrSyntax else Inr val
      | None \<Rightarrow>
          (case readFloat s of
             None \<Rightarrow> Inl ErrSyntax
           | Some (neg, hex, m, f, e, rest) \<Rightarrow>
               if rest \<noteq> [] then Inl ErrSyntax
               else if float64Overflow \<le> \<bar>floatValue neg hex m f e\<bar> then Inl ErrRange
               else Inr (Finite (roundFloat64 (floatValue neg hex m f e)))))"

text \<open>The conversions \<^verbatim>\<open>int(f)\<close> and \<^verbatim>\<open>int64(f)\<close> truncate towards zero. For a value
  outside the 64-bit range, an infinity or a NaN, Go leaves the result to the implementation;
  the model takes the result of amd64 there, \<open>-2^63\<close>.\<close>

definition float2int :: "float64 \<Rightarrow> int" where
  "float2int x =
     (case x of
        Finite r \<Rightarrow>
          (let t = (if 0 \<le> r then \<lfloor>r\<rfloor> else \<lceil>r\<rceil>)
           in if - (2 ^ 63) \<le> t \<and> t < 2 ^ 63 then t else - (2 ^ 63))
      | _ \<Rightarrow> - (2 ^ 63))"

subsection \<open>\<^verbatim>\<open>big.Float\<close>: \<^verbatim>\<open>big.NewFloat\<close> and \<^verbatim>\<open>(*Float).Parse(s, 10)\<close>\<close>

text \<open>A finite \<^verbatim>\<open>*big.Float\<close> is modelled by its value as well. \<^verbatim>\<open>big.NewFloat\<close> sets the
  precision to 53 bits and the rounding mode to nearest-even, which \<^verbatim>\<open>Parse\<close> then applies to
  what it reads (with a binary exponent of 32 bits, so that there is no lower bound on the
  last bit to speak of).\<close>

datatype bigFloat = BigFinite rat | BigInf bool

text \<open>\<^verbatim>\<open>big.NewFloat(f)\<close> panics for a NaN (\<open>None\<close> here).\<close>

definition NewFloat :: "float64 \<Rightarrow> bigFloat option" where
  "NewFloat x =
     (case x of Finite r \<Rightarrow> Some (BigFinite r) | PosInf \<Rightarrow> Some (BigInf False)
      | NegInf \<Rightarrow> Some (BigInf True) | NaN \<Rightarrow> None)"

text \<open>The mantissa scan of \<^verbatim>\<open>nat.scan\<close> in base 10 with a fraction allowed: the digit count,
  the digits as a number, the count of fraction digits, the rest.\<close>

fun natScan :: "bool \<Rightarrow> nat \<Rightarrow> int \<Rightarrow> nat \<Rightarrow> string \<Rightarrow> nat \<times> int \<times> nat \<times> string" where
  "natScan fracOk count m f [] = (count, m, f, [])"
| "natScan fracOk count m f (c # cs) =
     (if c = CHR ''.'' \<and> fracOk then natScan False count m f cs
      else if isDigit c then
        natScan fracOk (Suc count) (m * 10 + digitVal c) (if fracOk then f else Suc f) cs
      else (count, m, f, c # cs))"

text \<open>\<^verbatim>\<open>scanExponent\<close>: the exponent, its base (10 for \<^verbatim>\<open>e\<close>, 2 for \<^verbatim>\<open>p\<close>) and the rest.\<close>

definition scanExponent :: "string \<Rightarrow> parseError + (int \<times> int \<times> string)" where
  "scanExponent s =
     (if s = [] then Inr (0, 10, [])
      else if hd s \<notin> set ''eEpP'' then Inr (0, 10, s)
      else
        let ebase = (if hd s \<in> set ''eE'' then 10 else 2 :: int);
            s1 = tl s;
            neg = (s1 \<noteq> [] \<and> hd s1 = CHR ''-'');
            s2 = (if s1 \<noteq> [] \<and> isSign (hd s1) then tl s1 else s1);
            digits = takeWhile isDigit s2;
            rest = dropWhile isDigit s2
        in if digits = [] then Inl ErrNoDigits
           else case ParseInt ((if neg then ''-'' else []) @ digits) of
                  Inl e \<Rightarrow> Inl e
                | Inr x \<Rightarrow> Inr (x, ebase, rest))"

definition bigParse :: "string \<Rightarrow> parseError + bigFloat" where
  "bigParse s =
     (if s = ''Inf'' \<or> s = ''inf'' then Inr (BigInf False)
      else if length s = 4 \<and> isSign (hd s) \<and> (tl s = ''Inf'' \<or> tl s = ''inf'')
        then Inr (BigInf (hd s = CHR ''-''))
      else if s = [] then Inl ErrEOF
      else
        let neg = (hd s = CHR ''-'');
            s1 = (if isSign (hd s) then tl s else s)
        in case natScan True 0 0 0 s1 of
             (count, m, f, s2) \<Rightarrow>
               if count = 0 then Inl ErrNoDigits
               else case scanExponent s2 of
                      Inl e \<Rightarrow> Inl e
                    | Inr (x, ebase, rest) \<Rightarrow>
                        if m = 0 then (if rest \<noteq> [] then Inl ErrExpectedEnd else Inr (BigFinite 0))
                        else if \<not> (- (2 ^ 31) \<le> bitLen m - int f + x
                                   \<and> bitLen m - int f + x \<le> 2 ^ 31 - 1)
                          then Inl ErrExponentOverflow
                        else if rest \<noteq> [] then Inl ErrExpectedEnd
                        else
                          let v = rat_of_int m * powInt 10 (- int f) * powInt (rat_of_int ebase) x
                          in Inr (BigFinite (roundBinary (- (2 ^ 31)) (if neg then - v else v))))"

section \<open>The schema tree\<close>

text \<open>The value types, values, plan modifiers and validators of the framework that the
  compiler emits; a constructor stands for the framework's function of the same name
  (\<^verbatim>\<open>listvalidator.SizeBetween\<close> is \<open>ListSizeBetween\<close>, and so on).\<close>

datatype attrType =
    BoolType | Float64Type | Int64Type | NumberType | StringType
  | MapType attrType | ListType attrType | SetType attrType

datatype attrValue =
    BoolValue bool | Float64Value float64 | Int64Value int | NumberValue bigFloat
  | StringValue string

datatype planModifier = RequiresReplace | UseStateForUnknown | DefaultValue attrValue

datatype validator =
    ListSizeBetween int int | ListSizeAtLeast int
  | SetSizeBetween int int | SetSizeAtLeast int
  | StringLengthBetween int int
  | Float64Between float64 float64
  | Int64Between int int
  | Float64OneOf "float64 list" | Int64OneOf "int list" | NumberOneOf "bigFloat list"
  | StringOneOf "string list"
  | Float64NoneOf "float64 list" | Int64NoneOf "int list" | NumberNoneOf "bigFloat list"
  | StringNoneOf "string list"

text \<open>\<^verbatim>\<open>tfsdk.Attribute\<close>, \<^verbatim>\<open>tfsdk.Block\<close> and \<^verbatim>\<open>tfsdk.Schema\<close>, with the fields the compiler
  sets. A Go map from strings is an association list here, without duplicate keys and in
  the order in which the keys were first assigned; Go has no order on the keys of a map, so
  that a map is to be read through \<open>map_of\<close>. A \<^verbatim>\<open>nil\<close> map or slice is the empty one, which
  makes \<^verbatim>\<open>if len(*blocks) > 0 { b.Blocks = *blocks }\<close> a plain assignment.\<close>

record attribute =
  aType :: attrType
  aRequired :: bool
  aOptional :: bool
  aComputed :: bool
  aSensitive :: bool
  aDeprecationMessage :: string
  aDescription :: string
  aMarkdownDescription :: string
  aPlanModifiers :: "planModifier list"
  aValidators :: "validator list"

datatype nestingMode = BlockNestingModeUnknown | BlockNestingModeList | BlockNestingModeSet

datatype block = Block
  (bNestingMode: nestingMode)
  (bAttributes: "(string \<times> attribute) list")
  (bBlocks: "(string \<times> block) list")
  (bDeprecationMessage: string)
  (bDescription: string)
  (bMarkdownDescription: string)
  (bPlanModifiers: "planModifier list")
  (bValidators: "validator list")

record schema =
  sVersion :: int
  sDeprecationMessage :: string
  sDescription :: string
  sMarkdownDescription :: string
  sAttributes :: "(string \<times> attribute) list"
  sBlocks :: "(string \<times> block) list"

text \<open>The struct \<^verbatim>\<open>nest\<close>; its fields \<^verbatim>\<open>blocks\<close> and \<^verbatim>\<open>attributes\<close> are never written
  or read and are left out.\<close>

record nest =
  nSchema :: "schema option"
  nBlock :: "block option"
  nAttribute :: "attribute option"

text \<open>Every \<^verbatim>\<open>panic\<close> of the source, with what its message reports.\<close>

datatype panic =
    PanicExpectedStruct string
  | PanicNoSchema
  | PanicUnrecognizedSlice string
  | PanicMapKeys
  | PanicUnrecognizedType string
  | PanicVersion string parseError
  | PanicDefaultBool string parseError
  | PanicDefaultNumber string parseError
  | PanicBetweenArgs nat
  | PanicBetweenNumeric parseError
  | PanicOneOfNumeric parseError
  | PanicNoneOfNumeric parseError
  | PanicBigNaN

section \<open>Tag vocabulary\<close>

definition TagComputed :: string where "TagComputed = ''computed''"
definition TagOptional :: string where "TagOptional = ''optional''"
definition TagRequired :: string where "TagRequired = ''required''"
definition TagSensitive :: string where "TagSensitive = ''sensitive''"
definition TagDeprecationMessage :: string where "TagDeprecationMessage = ''deprecation''"
definition TagDescription :: string where "TagDescription = ''desc''"
definition TagMarkdownDescription :: string where "TagMarkdownDescription = ''md''"
definition TagPlanModifiers :: string where "TagPlanModifiers = ''pmods''"
definition TagValidators :: string where "TagValidators = ''valid''"
definition TagVersion :: string where "TagVersion = ''version''"
definition TagCollection :: string where "TagCollection = ''collection''"
definition TagCollectionList :: string where "TagCollectionList = ''list''"
definition TagCollectionSet :: string where "TagCollectionSet = ''set''"
definition TagTrue :: string where "TagTrue = ''true''"
definition TagPlanModifierReplace :: string where "TagPlanModifierReplace = ''replace''"
definition TagPlanModifierDefault :: string where "TagPlanModifierDefault = ''default''"
definition TagPlanModifierUSFU :: string where "TagPlanModifierUSFU = ''usfu''"
definition TagValidatorBetween :: string where "TagValidatorBetween = ''between''"
definition TagValidatorOneOf :: string where "TagValidatorOneOf = ''oneof''"
definition TagValidatorNoneOf :: string where "TagValidatorNoneOf = ''noneof''"
definition SpecialTypeBlock :: string where "SpecialTypeBlock = ''block''"

lemmas Tag_defs =
  TagComputed_def TagOptional_def TagRequired_def TagSensitive_def TagDeprecationMessage_def
  TagDescription_def TagMarkdownDescription_def TagPlanModifiers_def TagValidators_def
  TagVersion_def TagCollection_def TagCollectionList_def TagCollectionSet_def TagTrue_def
  TagPlanModifierReplace_def TagPlanModifierDefault_def TagPlanModifierUSFU_def
  TagValidatorBetween_def TagValidatorOneOf_def TagValidatorNoneOf_def SpecialTypeBlock_def
  TagSnakeName_def

section \<open>Constraint and modifier rule engine\<close>

text \<open>The loops \<^verbatim>\<open>for _, a := range args { n, err := parse(a); if err != nil { panic(...) };
  nums = append(nums, n) }\<close>: the first argument that does not parse stops the loop.\<close>

fun parseArgs :: "(string \<Rightarrow> parseError + 'a) \<Rightarrow> string list \<Rightarrow> parseError + 'a list" where
  "parseArgs parse [] = Inr []"
| "parseArgs parse (a # args) =
     (case parse a of
        Inl err \<Rightarrow> Inl err
      | Inr n \<Rightarrow> (case parseArgs parse args of Inl err \<Rightarrow> Inl err | Inr nums \<Rightarrow> Inr (n # nums)))"

definition pMods :: "string \<Rightarrow> string \<Rightarrow> panic + planModifier list" where
  "pMods tagV attrT =
     (let pm0 = [];
          pm1 = (if hasTagArg TagPlanModifierReplace tagV then pm0 @ [RequiresReplace] else pm0);
          pm = (if hasTagArg TagPlanModifierUSFU tagV then pm1 @ [UseStateForUnknown] else pm1)
      in if hasTagArg TagPlanModifierDefault tagV then
           (let dv = tagArgs TagPlanModifierDefault tagV
            in if attrT \<in> set [''types.Bool'', ''bool''] then
                 (case ParseBool dv of
                    Inl err \<Rightarrow> Inl (PanicDefaultBool dv err)
                  | Inr b \<Rightarrow> Inr (pm @ [DefaultValue (BoolValue b)]))
               else if attrT \<in> set [''types.Float64'', ''float'', ''float64''] then
                 (case ParseFloat dv of
                    Inl err \<Rightarrow> Inl (PanicDefaultNumber dv err)
                  | Inr f \<Rightarrow> Inr (pm @ [DefaultValue (Float64Value f)]))
               else if attrT \<in> set [''types.Int64'', ''int64''] then
                 (case ParseInt dv of
                    Inl err \<Rightarrow> Inl (PanicDefaultNumber dv err)
                  | Inr i \<Rightarrow> Inr (pm @ [DefaultValue (Int64Value i)]))
               else if attrT \<in> set [''types.Number'', ''int''] then
                 (case ParseFloat dv of
                    Inl err \<Rightarrow> Inl (PanicDefaultNumber dv err)
                  | Inr f \<Rightarrow>
                      (case NewFloat f of
                         None \<Rightarrow> Inl PanicBigNaN
                       | Some bf \<Rightarrow> Inr (pm @ [DefaultValue (NumberValue bf)])))
               else if attrT \<in> set [''types.String'', ''string''] then
                 Inr (pm @ [DefaultValue (StringValue dv)])
               else Inr pm)
         else Inr pm)"

definition sliceTypeNames :: "string list" where
  "sliceTypeNames =
     [''[]types.Bool'', ''[]bool'',
      ''[]types.Float64'', ''[]float'', ''[]float64'',
      ''[]types.Int64'', ''[]int64'', ''[]int'',
      ''[]types.Number'',
      ''[]types.String'', ''[]string'']"

text \<open>
  The constructors of the validator library that \<open>betweenValidator\<close> calls; \<open>None\<close> is the
  \<^verbatim>\<open>nil\<close> validator. \<^verbatim>\<open>stringvalidator.LengthBetween\<close> returns \<^verbatim>\<open>nil\<close> for a negative minimum
  or a maximum below the minimum, \<^verbatim>\<open>float64validator.Between\<close> and \<^verbatim>\<open>int64validator.Between\<close>
  for a minimum above the maximum; the size validators of lists and sets take every pair.
\<close>

fun float64Greater :: "float64 \<Rightarrow> float64 \<Rightarrow> bool" where
  "float64Greater NaN y = False"
| "float64Greater x NaN = False"
| "float64Greater (Finite a) (Finite b) = (b < a)"
| "float64Greater PosInf y = (y \<noteq> PosInf)"
| "float64Greater x NegInf = (x \<noteq> NegInf)"
| "float64Greater x y = False"

definition LengthBetween :: "int \<Rightarrow> int \<Rightarrow> validator option" where
  "LengthBetween minLength maxLength =
     (if minLength < 0 \<or> maxLength < minLength then None
      else Some (StringLengthBetween minLength maxLength))"

definition Float64ValidatorBetween :: "float64 \<Rightarrow> float64 \<Rightarrow> validator option" where
  "Float64ValidatorBetween lo hi =
     (if float64Greater lo hi then None else Some (Float64Between lo hi))"

definition Int64ValidatorBetween :: "int \<Rightarrow> int \<Rightarrow> validator option" where
  "Int64ValidatorBetween lo hi = (if hi < lo then None else Some (Int64Between lo hi))"

text \<open>\<open>betweenValidator\<close>; \<open>None\<close> is the \<^verbatim>\<open>nil\<close> validator.\<close>

definition betweenValidator :: "string \<Rightarrow> string \<Rightarrow> string \<Rightarrow> panic + validator option" where
  "betweenValidator betweenValue attrT tags =
     (let ta = tagArgs TagValidatorBetween betweenValue;
          args = Split ta (CHR '','')
      in if length args \<noteq> 2 then Inl (PanicBetweenArgs (length args))
         else case parseArgs ParseFloat args of
                Inl err \<Rightarrow> Inl (PanicBetweenNumeric err)
              | Inr nums \<Rightarrow>
                  if attrT \<in> set (sliceTypeNames @ [SpecialTypeBlock]) then
                    (if tagValue TagCollection tags = TagCollectionSet
                     then Inr (Some (SetSizeBetween (float2int (nums ! 0)) (float2int (nums ! 1))))
                     else Inr (Some (ListSizeBetween (float2int (nums ! 0)) (float2int (nums ! 1)))))
                  else if attrT = ''types.ListType'' then
                    Inr (Some (ListSizeBetween (float2int (nums ! 0)) (float2int (nums ! 1))))
                  else if attrT = ''types.SetType'' then
                    Inr (Some (SetSizeBetween (float2int (nums ! 0)) (float2int (nums ! 1))))
                  else if attrT \<in> set [''types.String'', ''string''] then
                    Inr (LengthBetween (float2int (nums ! 0)) (float2int (nums ! 1)))
                  else if attrT \<in> set [''types.Float64'', ''float'', ''float64'', ''types.Number''] then
                    Inr (Float64ValidatorBetween (nums ! 0) (nums ! 1))
                  else if attrT \<in> set [''types.Int64'', ''int'', ''int64''] then
                    Inr (Int64ValidatorBetween (float2int (nums ! 0)) (float2int (nums ! 1)))
                  else Inr None)"

definition oneOfValidator :: "string \<Rightarrow> string \<Rightarrow> string \<Rightarrow> panic + validator option" where
  "oneOfValidator oneOfValue attrT tags =
     (let ta = tagArgs TagValidatorOneOf oneOfValue;
          args = Split ta (CHR '','')
      in if attrT \<in> set [''types.Float64'', ''float'', ''float64''] then
           (case parseArgs ParseFloat args of
              Inl err \<Rightarrow> Inl (PanicOneOfNumeric err)
            | Inr nums \<Rightarrow> Inr (Some (Float64OneOf nums)))
         else if attrT \<in> set [''types.Int64'', ''int64'', ''int''] then
           (case parseArgs ParseInt args of
              Inl err \<Rightarrow> Inl (PanicOneOfNumeric err)
            | Inr nums \<Rightarrow> Inr (Some (Int64OneOf nums)))
         else if attrT = ''types.Number'' then
           (case parseArgs bigParse args of
              Inl err \<Rightarrow> Inl (PanicOneOfNumeric err)
            | Inr nums \<Rightarrow> Inr (Some (NumberOneOf nums)))
         else if attrT \<in> set [''types.String'', ''string''] then
           Inr (Some (StringOneOf args))
         else Inr None)"

definition noneOfValidator :: "string \<Rightarrow> string \<Rightarrow> string \<Rightarrow> panic + validator option" where
  "noneOfValidator noneOfValue attrT tags =
     (let ta = tagArgs TagValidatorNoneOf noneOfValue;
          args = Split ta (CHR '','')
      in if attrT \<in> set [''types.Float64'', ''float'', ''float64''] then
           (case parseArgs ParseFloat args of
              Inl err \<Rightarrow> Inl (PanicNoneOfNumeric err)
            | Inr nums \<Rightarrow> Inr (Some (Float64NoneOf nums)))
         else if attrT \<in> set [''types.Int64'', ''int64'', ''int''] then
           (case parseArgs ParseInt args of
              Inl err \<Rightarrow> Inl (PanicNoneOfNumeric err)
            | Inr nums \<Rightarrow> Inr (Some (Int64NoneOf nums)))
         else if attrT = ''types.Number'' then
           (case parseArgs bigParse args of
              Inl err \<Rightarrow> Inl (PanicNoneOfNumeric err)
            | Inr nums \<Rightarrow> Inr (Some (NumberNoneOf nums)))
         else if attrT \<in> set [''types.String'', ''string''] then
           Inr (Some (StringNoneOf args))
         else Inr None)"

text \<open>\<^verbatim>\<open>if v := f(...); v != nil { vals = append(vals, v) }\<close>\<close>

definition appendValidator :: "validator list \<Rightarrow> validator option \<Rightarrow> validator list" where
  "appendValidator vals v = (case v of None \<Rightarrow> vals | Some x \<Rightarrow> vals @ [x])"

text \<open>The implicit size validators of a block: the part of \<open>validators\<close> under
  \<^verbatim>\<open>!hasTagArg(TagValidatorBetween, tagV) && attrType == SpecialTypeBlock\<close>.\<close>

definition blockSizeValidators :: "validator list \<Rightarrow> bool \<Rightarrow> string \<Rightarrow> validator list" where
  "blockSizeValidators vals fromSlice tags =
     (let min = (if tagValue TagRequired tags = TagTrue then 1 else 0 :: int);
          vals1 =
            (if tagValue TagCollection tags = TagCollectionSet then
               (let v1 = (if fromSlice \<and> 0 < min then vals @ [SetSizeAtLeast min] else vals)
                in if \<not> fromSlice then v1 @ [SetSizeBetween min 1] else v1)
             else vals)
      in if tagValue TagCollection tags \<noteq> TagCollectionSet then
           (let v1 = (if fromSlice \<and> 0 < min then vals1 @ [ListSizeAtLeast min] else vals1)
            in if \<not> fromSlice then v1 @ [ListSizeBetween min 1] else v1)
         else vals1)"

definition validators :: "string \<Rightarrow> string \<Rightarrow> bool \<Rightarrow> string \<Rightarrow> panic + validator list" where
  "validators tagV attrT fromSlice tags =
     (case (if hasTagArg TagValidatorBetween tagV
            then (case betweenValidator tagV attrT tags of
                    Inl e \<Rightarrow> Inl e
                  | Inr v \<Rightarrow> Inr (appendValidator [] v))
            else Inr []) of
        Inl e \<Rightarrow> Inl e
      | Inr vals0 \<Rightarrow>
          (let vals1 = (if \<not> hasTagArg TagValidatorBetween tagV \<and> attrT = SpecialTypeBlock
                        then blockSizeValidators vals0 fromSlice tags else vals0)
           in case (if hasTagArg TagValidatorOneOf tagV
                    then (case oneOfValidator tagV attrT tags of
                            Inl e \<Rightarrow> Inl e
                          | Inr v \<Rightarrow> Inr (appendValidator vals1 v))
                    else Inr vals1) of
                Inl e \<Rightarrow> Inl e
              | Inr vals2 \<Rightarrow>
                  (if hasTagArg TagValidatorNoneOf tagV
                   then (case noneOfValidator tagV attrT tags of
                           Inl e \<Rightarrow> Inl e
                         | Inr v \<Rightarrow> Inr (appendValidator vals2 v))
                   else Inr vals2)))"

section \<open>Model values as seen through reflection\<close>

text \<open>
  The compiler looks at a model value only through \<^verbatim>\<open>reflect\<close>: the name of its type
  (\<^verbatim>\<open>reflect.TypeOf(model).String()\<close>), its kind, the fields of a struct (name, tag, value)
  and the element type of a slice. A model value is therefore represented by its type:
  \<^item> \<open>StructT s fs\<close>: kind \<^verbatim>\<open>Struct\<close>, type name \<open>s\<close>, fields \<open>fs\<close> in declaration order;
  \<^item> \<open>SliceT s t\<close>: kind \<^verbatim>\<open>Slice\<close>, type name \<open>s\<close>, element type \<open>t\<close>;
  \<^item> \<open>MapT s\<close>: kind \<^verbatim>\<open>Map\<close>;
  \<^item> \<open>OtherT s k\<close>: any other kind, \<open>k\<close> being the kind's name (\<^verbatim>\<open>int\<close>, \<^verbatim>\<open>ptr\<close>, ...).
  Fields of interface type (whose value may be \<^verbatim>\<open>nil\<close>) are outside the model.
\<close>

datatype gotype =
    StructT string "field list"
  | SliceT string gotype
  | MapT string
  | OtherT string string
and field = Field (fName: string) (fType: gotype) (fTag: string)

fun typeString :: "gotype \<Rightarrow> string" where
  "typeString (StructT s fs) = s"
| "typeString (SliceT s t) = s"
| "typeString (MapT s) = s"
| "typeString (OtherT s k) = s"

fun kindName :: "gotype \<Rightarrow> string" where
  "kindName (StructT s fs) = ''struct''"
| "kindName (SliceT s t) = ''slice''"
| "kindName (MapT s) = ''map''"
| "kindName (OtherT s k) = k"

fun isStruct :: "gotype \<Rightarrow> bool" where
  "isStruct (StructT s fs) = True"
| "isStruct t = False"

text \<open>\<^verbatim>\<open>IsExported\<close>: the name starts with an upper-case letter (ASCII names).\<close>

definition IsExported :: "field \<Rightarrow> bool" where
  "IsExported f = (fName f \<noteq> [] \<and> isUpperAZ (hd (fName f)))"

section \<open>Leaf type resolver\<close>

text \<open>\<^verbatim>\<open>a := tfsdk.Attribute{}\<close> with \<^verbatim>\<open>a.Type\<close> set.\<close>

definition attributeOf :: "attrType \<Rightarrow> attribute" where
  "attributeOf t =
     \<lparr>aType = t, aRequired = False, aOptional = False, aComputed = False, aSensitive = False,
      aDeprecationMessage = [], aDescription = [], aMarkdownDescription = [],
      aPlanModifiers = [], aValidators = []\<rparr>"

definition collectionOf :: "string \<Rightarrow> attrType \<Rightarrow> attrType" where
  "collectionOf tags t =
     (if tagValue TagCollection tags = TagCollectionSet then SetType t else ListType t)"

definition leaf :: "gotype \<Rightarrow> string \<Rightarrow> attribute option" where
  "leaf model tags =
     (let n = typeString model
      in if n \<in> set [''types.Bool'', ''bool''] then Some (attributeOf BoolType)
         else if n \<in> set [''types.Float64'', ''float'', ''float64''] then Some (attributeOf Float64Type)
         else if n \<in> set [''types.Int64'', ''int64'', ''int''] then Some (attributeOf Int64Type)
         else if n = ''types.Number'' then Some (attributeOf NumberType)
         else if n \<in> set [''types.String'', ''string''] then Some (attributeOf StringType)
         else if n \<in> set [''map[string]types.Bool'', ''map[string]bool'']
           then Some (attributeOf (MapType BoolType))
         else if n \<in> set [''map[string]types.Float64'', ''map[string]float'', ''map[string]float64'']
           then Some (attributeOf (MapType Float64Type))
         else if n \<in> set [''map[string]types.Int64'', ''map[string]int64'', ''map[string]int'']
           then Some (attributeOf (MapType Int64Type))
         else if n = ''map[string]types.Number'' then Some (attributeOf (MapType NumberType))
         else if n \<in> set [''map[string]types.String'', ''map[string]string'']
           then Some (attributeOf (MapType StringType))
         else if n \<in> set [''[]types.Bool'', ''[]bool'']
           then Some (attributeOf (collectionOf tags BoolType))
         else if n \<in> set [''[]types.Float64'', ''[]float'', ''[]float64'']
           then Some (attributeOf (collectionOf tags Float64Type))
         else if n \<in> set [''[]types.Int64'', ''[]int64'', ''[]int'']
           then Some (attributeOf (collectionOf tags Int64Type))
         else if n = ''[]types.Number'' then Some (attributeOf (collectionOf tags NumberType))
         else if n \<in> set [''[]types.String'', ''[]string'']
           then Some (attributeOf (collectionOf tags StringType))
         else None)"

section \<open>Attribute and block options\<close>

definition addAttrOptions :: "attribute \<Rightarrow> string \<Rightarrow> string \<Rightarrow> panic + attribute" where
  "addAttrOptions a tags attrT =
     (let a1 = (if tagValue TagComputed tags = TagTrue then a\<lparr>aComputed := True\<rparr> else a);
          a2 = (if tagValue TagOptional tags = TagTrue then a1\<lparr>aOptional := True\<rparr> else a1);
          a3 = (if tagValue TagRequired tags = TagTrue then a2\<lparr>aRequired := True\<rparr> else a2);
          a4 = (if tagValue TagComputed tags = [] \<and> tagValue TagOptional tags = []
                   \<and> tagValue TagRequired tags = []
                then a3\<lparr>aOptional := True\<rparr> else a3);
          a5 = (if tagValue TagSensitive tags = TagTrue then a4\<lparr>aSensitive := True\<rparr> else a4);
          a6 = (if tagValue TagDeprecationMessage tags \<noteq> []
                then a5\<lparr>aDeprecationMessage := tagValue TagDeprecationMessage tags\<rparr> else a5);
          a7 = (if tagValue TagDescription tags \<noteq> []
                then a6\<lparr>aDescription := tagValue TagDescription tags\<rparr> else a6);
          a8 = (if tagValue TagMarkdownDescription tags \<noteq> []
                then a7\<lparr>aMarkdownDescription := tagValue TagMarkdownDescription tags\<rparr> else a7)
      in case (if tagValue TagPlanModifiers tags \<noteq> []
               then (case pMods (tagValue TagPlanModifiers tags) attrT of
                       Inl e \<Rightarrow> Inl e
                     | Inr pm \<Rightarrow> Inr (a8\<lparr>aPlanModifiers := pm\<rparr>))
               else Inr a8) of
           Inl e \<Rightarrow> Inl e
         | Inr a9 \<Rightarrow>
             (if tagValue TagValidators tags \<noteq> []
              then (case validators (tagValue TagValidators tags) attrT False tags of
                      Inl e \<Rightarrow> Inl e
                    | Inr vals \<Rightarrow> Inr (a9\<lparr>aValidators := vals\<rparr>))
              else Inr a9))"

fun addBlockOptions :: "block \<Rightarrow> bool \<Rightarrow> string \<Rightarrow> panic + block" where
  "addBlockOptions (Block mode attrs blocks dep desc md pms vals) slice tags =
     (let mode1 = (if tagValue TagCollection tags = TagCollectionSet
                   then BlockNestingModeSet else BlockNestingModeList);
          dep1 = (if tagValue TagDeprecationMessage tags \<noteq> []
                  then tagValue TagDeprecationMessage tags else dep);
          desc1 = (if tagValue TagDescription tags \<noteq> [] then tagValue TagDescription tags else desc);
          md1 = (if tagValue TagMarkdownDescription tags \<noteq> []
                 then tagValue TagMarkdownDescription tags else md)
      in case (if tagValue TagPlanModifiers tags \<noteq> []
               then pMods (tagValue TagPlanModifiers tags) SpecialTypeBlock
               else Inr pms) of
           Inl e \<Rightarrow> Inl e
         | Inr pms1 \<Rightarrow>
             (case validators (tagValue TagValidators tags) SpecialTypeBlock slice tags of
                Inl e \<Rightarrow> Inl e
              | Inr vals1 \<Rightarrow> Inr (Block mode1 attrs blocks dep1 desc1 md1 pms1 vals1)))"

section \<open>Structural walker\<close>

definition schemaNest :: "(string \<times> block) list \<Rightarrow> (string \<times> attribute) list \<Rightarrow> nest" where
  "schemaNest blocks attrs =
     \<lparr>nSchema = Some \<lparr>sVersion = 0, sDeprecationMessage = [], sDescription = [],
                      sMarkdownDescription = [], sAttributes = attrs, sBlocks = blocks\<rparr>,
      nBlock = None, nAttribute = None\<rparr>"

definition blockNest ::
  "(string \<times> block) list \<Rightarrow> (string \<times> attribute) list \<Rightarrow> bool \<Rightarrow> string \<Rightarrow> panic + nest" where
  "blockNest blocks attrs slice tags =
     (case addBlockOptions (Block BlockNestingModeUnknown attrs blocks [] [] [] [] []) slice tags of
        Inl e \<Rightarrow> Inl e
      | Inr b \<Rightarrow> Inr \<lparr>nSchema = None, nBlock = Some b, nAttribute = None\<rparr>)"

text \<open>The first lines of \<open>rAttribute\<close>: a leaf becomes an attribute.\<close>

definition leafNest :: "attribute \<Rightarrow> string \<Rightarrow> string \<Rightarrow> panic + nest" where
  "leafNest l tags attrT =
     (case addAttrOptions l tags attrT of
        Inl e \<Rightarrow> Inl e
      | Inr a \<Rightarrow> Inr \<lparr>nSchema = None, nBlock = None, nAttribute = Some a\<rparr>)"

text \<open>\<open>rAttribute\<close>, and the loop over the fields of a struct (\<open>rFields\<close>), which fills the two
  maps (\<^verbatim>\<open>attrs[s] = *n.attribute\<close> is \<open>AList.update\<close>) and stops at the first panic.\<close>

fun rAttribute :: "gotype \<Rightarrow> string \<Rightarrow> bool \<Rightarrow> nat \<Rightarrow> panic + nest"
  and rFields :: "field list \<Rightarrow> nat \<Rightarrow> (string \<times> attribute) list \<Rightarrow> (string \<times> block) list
    \<Rightarrow> panic + ((string \<times> attribute) list \<times> (string \<times> block) list)" where
  "rAttribute (StructT n fs) tags fromSlice level =
     (case leaf (StructT n fs) tags of
        Some l \<Rightarrow> leafNest l tags n
      | None \<Rightarrow>
          (case rFields fs level [] [] of
             Inl e \<Rightarrow> Inl e
           | Inr (attrs, blocks) \<Rightarrow>
               if level = 0 then Inr (schemaNest blocks attrs)
               else blockNest blocks attrs fromSlice tags))"
| "rAttribute (SliceT n t) tags fromSlice level =
     (case leaf (SliceT n t) tags of
        Some l \<Rightarrow> leafNest l tags n
      | None \<Rightarrow>
          if \<not> isStruct t then Inl (PanicUnrecognizedSlice (kindName t))
          else rAttribute t tags True (level + 1))"
| "rAttribute (MapT n) tags fromSlice level =
     (case leaf (MapT n) tags of
        Some l \<Rightarrow> leafNest l tags n
      | None \<Rightarrow> Inl PanicMapKeys)"
| "rAttribute (OtherT n k) tags fromSlice level =
     (case leaf (OtherT n k) tags of
        Some l \<Rightarrow> leafNest l tags n
      | None \<Rightarrow> Inl (PanicUnrecognizedType n))"
| "rFields [] level attrs blocks = Inr (attrs, blocks)"
| "rFields (Field name t tag # fs) level attrs blocks =
     (if \<not> IsExported (Field name t tag) then rFields fs level attrs blocks
      else
        let s = snakeCase name tag
        in case rAttribute t tag False (level + 1) of
             Inl e \<Rightarrow> Inl e
           | Inr n \<Rightarrow>
               rFields fs level
                 (case nAttribute n of Some a \<Rightarrow> AList.update s a attrs | None \<Rightarrow> attrs)
                 (case nBlock n of Some b \<Rightarrow> AList.update s b blocks | None \<Rightarrow> blocks))"

definition schemaLevelOptions :: "schema \<Rightarrow> string \<Rightarrow> panic + schema" where
  "schemaLevelOptions schm tags =
     (case (if tagValue TagVersion tags \<noteq> []
            then (case ParseInt (tagValue TagVersion tags) of
                    Inl err \<Rightarrow> Inl (PanicVersion (tagValue TagVersion tags) err)
                  | Inr vi \<Rightarrow> Inr (schm\<lparr>sVersion := vi\<rparr>))
            else Inr schm) of
        Inl e \<Rightarrow> Inl e
      | Inr s1 \<Rightarrow>
          (let s2 = (if tagValue TagDeprecationMessage tags \<noteq> []
                     then s1\<lparr>sDeprecationMessage := tagValue TagDeprecationMessage tags\<rparr> else s1);
               s3 = (if tagValue TagDescription tags \<noteq> []
                     then s2\<lparr>sDescription := tagValue TagDescription tags\<rparr> else s2)
           in Inr (if tagValue TagMarkdownDescription tags \<noteq> []
                   then s3\<lparr>sMarkdownDescription := tagValue TagMarkdownDescription tags\<rparr>
                   else s3)))"

text \<open>The special field that carries the schema-level options: not exported, named \<open>_\<close>,
  of kind struct.\<close>

definition isSchemaField :: "field \<Rightarrow> bool" where
  "isSchemaField f = (\<not> IsExported f \<and> fName f = ''_'' \<and> isStruct (fType f))"

fun New :: "gotype \<Rightarrow> panic + schema" where
  "New (StructT n fs) =
     (case rAttribute (StructT n fs) [] False 0 of
        Inl e \<Rightarrow> Inl e
      | Inr nst \<Rightarrow>
          (case nSchema nst of
             None \<Rightarrow> Inl PanicNoSchema
           | Some schm \<Rightarrow>
               (case find isSchemaField fs of
                  None \<Rightarrow> Inr schm
                | Some f \<Rightarrow> schemaLevelOptions schm (fTag f))))"
| "New model = Inl (PanicExpectedStruct (kindName model))"

section \<open>Properties of the tag expression parser and the name normalizer\<close>





section \<open>Attribute requiredness\<close>

text \<open>The tag string contains a key when one of its tokens is \<open>key:value\<close>.\<close>

definition hasTagKey :: "string \<Rightarrow> string \<Rightarrow> bool" where
  "hasTagKey key allTags =
     (\<exists>tag \<in> set (splitTags allTags).
        length (Split tag (CHR '':'')) = 2 \<and> Split tag (CHR '':'') ! 0 = key)"

lemma tagValueLoop_absent:
  "\<not> (\<exists>tag \<in> set tags. length (Split tag (CHR '':'')) = 2 \<and> Split tag (CHR '':'') ! 0 = key)
   \<Longrightarrow> tagValueLoop key tags = []"
  by (induction tags) (auto simp: Let_def)

lemma tagValue_absent: "\<not> hasTagKey key allTags \<Longrightarrow> tagValue key allTags = []"
  unfolding hasTagKey_def tagValue_def by (rule tagValueLoop_absent)

lemma addAttrOptions_flags:
  assumes "addAttrOptions a tags attrT = Inr a'"
  shows "aType a' = aType a"
    and "aRequired a' = (aRequired a \<or> tagValue TagRequired tags = TagTrue)"
    and "aOptional a' = (aOptional a \<or> tagValue TagOptional tags = TagTrue \<or>
        (tagValue TagComputed tags = [] \<and> tagValue TagOptional tags = [] \<and>
         tagValue TagRequired tags = []))"
    and "aComputed a' = (aComputed a \<or> tagValue TagComputed tags = TagTrue)"
    and "aSensitive a' = (aSensitive a \<or> tagValue TagSensitive tags = TagTrue)"
proof -
  define a8 where "a8 =
     (let a1 = (if tagValue TagComputed tags = TagTrue then a\<lparr>aComputed := True\<rparr> else a);
          a2 = (if tagValue TagOptional tags = TagTrue then a1\<lparr>aOptional := True\<rparr> else a1);
          a3 = (if tagValue TagRequired tags = TagTrue then a2\<lparr>aRequired := True\<rparr> else a2);
          a4 = (if tagValue TagComputed tags = [] \<and> tagValue TagOptional tags = []
                   \<and> tagValue TagRequired tags = []
                then a3\<lparr>aOptional := True\<rparr> else a3);
          a5 = (if tagValue TagSensitive tags = TagTrue then a4\<lparr>aSensitive := True\<rparr> else a4);
          a6 = (if tagValue TagDeprecationMessage tags \<noteq> []
                then a5\<lparr>aDeprecationMessage := tagValue TagDeprecationMessage tags\<rparr> else a5);
          a7 = (if tagValue TagDescription tags \<noteq> []
                then a6\<lparr>aDescription := tagValue TagDescription tags\<rparr> else a6)
      in (if tagValue TagMarkdownDescription tags \<noteq> []
                then a7\<lparr>aMarkdownDescription := tagValue TagMarkdownDescription tags\<rparr> else a7))"
  have e: "addAttrOptions a tags attrT =
     (case (if tagValue TagPlanModifiers tags \<noteq> []
               then (case pMods (tagValue TagPlanModifiers tags) attrT of
                       Inl e \<Rightarrow> Inl e
                     | Inr pm \<Rightarrow> Inr (a8\<lparr>aPlanModifiers := pm\<rparr>))
               else Inr a8) of
           Inl e \<Rightarrow> Inl e
         | Inr a9 \<Rightarrow>
             (if tagValue TagValidators tags \<noteq> []
              then (case validators (tagValue TagValidators tags) attrT False tags of
                      Inl e \<Rightarrow> Inl e
                    | Inr vals \<Rightarrow> Inr (a9\<lparr>aValidators := vals\<rparr>))
              else Inr a9))"
    by (simp only: addAttrOptions_def a8_def Let_def)
  from assms have f: "aType a' = aType a8 \<and> aRequired a' = aRequired a8 \<and>
      aOptional a' = aOptional a8 \<and> aComputed a' = aComputed a8 \<and> aSensitive a' = aSensitive a8"
    unfolding e by (auto split: if_splits sum.splits)
  have g: "aType a8 = aType a"
    "aRequired a8 = (aRequired a \<or> tagValue TagRequired tags = TagTrue)"
    "aOptional a8 = (aOptional a \<or> tagValue TagOptional tags = TagTrue \<or>
        (tagValue TagComputed tags = [] \<and> tagValue TagOptional tags = [] \<and>
         tagValue TagRequired tags = []))"
    "aComputed a8 = (aComputed a \<or> tagValue TagComputed tags = TagTrue)"
    "aSensitive a8 = (aSensitive a \<or> tagValue TagSensitive tags = TagTrue)"
    unfolding a8_def Let_def
    by (simp_all add: if_distrib[of aType] if_distrib[of aRequired] if_distrib[of aOptional]
          if_distrib[of aComputed] if_distrib[of aSensitive] TagTrue_def
          split del: if_split cong: if_cong)
       auto
  from f g show "aType a' = aType a"
    and "aRequired a' = (aRequired a \<or> tagValue TagRequired tags = TagTrue)"
    and "aOptional a' = (aOptional a \<or> tagValue TagOptional tags = TagTrue \<or>
        (tagValue TagComputed tags = [] \<and> tagValue TagOptional tags = [] \<and>
         tagValue TagRequired tags = []))"
    and "aComputed a' = (aComputed a \<or> tagValue TagComputed tags = TagTrue)"
    and "aSensitive a' = (aSensitive a \<or> tagValue TagSensitive tags = TagTrue)"
    by simp_all
qed

lemma leaf_attributeOf: "leaf model tags = Some l \<Longrightarrow> \<exists>t. l = attributeOf t"
  unfolding leaf_def Let_def by (simp split: if_splits) blast+

lemma rAttribute_leaf:
  "leaf model tags = Some l \<Longrightarrow>
   rAttribute model tags fromSlice level = leafNest l tags (typeString model)"
  by (cases model) simp_all

text \<open>What the walker returns for a leaf, flag by flag.\<close>

lemma rAttribute_leaf_flags:
  assumes "leaf model tags = Some l" and "rAttribute model tags fromSlice level = Inr n"
  shows "\<exists>a. nAttribute n = Some a \<and> nBlock n = None \<and> nSchema n = None \<and>
     aType a = aType l \<and>
     aRequired a = (tagValue TagRequired tags = TagTrue) \<and>
     aOptional a = (tagValue TagOptional tags = TagTrue \<or>
        (tagValue TagComputed tags = [] \<and> tagValue TagOptional tags = [] \<and>
         tagValue TagRequired tags = [])) \<and>
     aComputed a = (tagValue TagComputed tags = TagTrue) \<and>
     aSensitive a = (tagValue TagSensitive tags = TagTrue)"
proof -
  from assms have "leafNest l tags (typeString model) = Inr n"
    by (simp add: rAttribute_leaf)
  then obtain a where a: "addAttrOptions l tags (typeString model) = Inr a"
    and n: "n = \<lparr>nSchema = None, nBlock = None, nAttribute = Some a\<rparr>"
    by (auto simp: leafNest_def split: sum.splits)
  from assms(1) obtain t where "l = attributeOf t"
    using leaf_attributeOf by blast
  then have "\<not> aRequired l" "\<not> aOptional l" "\<not> aComputed l" "\<not> aSensitive l"
    by (simp_all add: attributeOf_def)
  with addAttrOptions_flags[OF a] n show ?thesis by simp
qed

text \<open>
  Claim C5. For every field that the leaf resolver accepts (the supported scalar types among
  them) and whose tag string contains none of the keys \<^verbatim>\<open>computed\<close>, \<^verbatim>\<open>optional\<close> and
  \<^verbatim>\<open>required\<close>, the compiled attribute has \<open>optional = true\<close>, \<open>computed = false\<close> and
  \<open>required = false\<close>.
\<close>

theorem attribute_defaults_to_optional:
  assumes "leaf model tags = Some l"
    and "\<not> hasTagKey TagComputed tags"
    and "\<not> hasTagKey TagOptional tags"
    and "\<not> hasTagKey TagRequired tags"
    and "rAttribute model tags fromSlice level = Inr n"
  shows "\<exists>a. nAttribute n = Some a \<and> aOptional a \<and> \<not> aComputed a \<and> \<not> aRequired a"
proof -
  have "tagValue TagComputed tags = []" "tagValue TagOptional tags = []"
    "tagValue TagRequired tags = []"
    using assms(2-4) by (simp_all add: tagValue_absent)
  with rAttribute_leaf_flags[OF assms(1,5)] show ?thesis
    by (auto simp: TagTrue_def)
qed

theorem attribute_defaults_to_optional_witness:
  \<open>leaf (OtherT ''float64'' ''float64'') ''tfsdk:"percent_traffic" sensitive:"true"''
     = Some (attributeOf Float64Type) \<and>
   \<not> hasTagKey TagComputed ''tfsdk:"percent_traffic" sensitive:"true"'' \<and>
   \<not> hasTagKey TagOptional ''tfsdk:"percent_traffic" sensitive:"true"'' \<and>
   \<not> hasTagKey TagRequired ''tfsdk:"percent_traffic" sensitive:"true"'' \<and>
   rAttribute (OtherT ''float64'' ''float64'') ''tfsdk:"percent_traffic" sensitive:"true"'' False 1 =
     Inr \<lparr>nSchema = None, nBlock = None, nAttribute = Some
       \<lparr>aType = Float64Type, aRequired = False, aOptional = True, aComputed = False,
        aSensitive = True, aDeprecationMessage = [], aDescription = [],
        aMarkdownDescription = [], aPlanModifiers = [], aValidators = []\<rparr>\<rparr> \<and>
   (\<exists>a. nAttribute \<lparr>nSchema = None, nBlock = None, nAttribute = Some
       \<lparr>aType = Float64Type, aRequired = False, aOptional = True, aComputed = False,
        aSensitive = True, aDeprecationMessage = [], aDescription = [],
        aMarkdownDescription = [], aPlanModifiers = [], aValidators = []\<rparr>\<rparr> = Some a \<and>
      aOptional a \<and> \<not> aComputed a \<and> \<not> aRequired a)\<close>
proof -
  have l: \<open>leaf (OtherT ''float64'' ''float64'') ''tfsdk:"percent_traffic" sensitive:"true"''
     = Some (attributeOf Float64Type)\<close>
    by code_simp
  have c: \<open>\<not> hasTagKey TagComputed ''tfsdk:"percent_traffic" sensitive:"true"''\<close>
    by code_simp
  have ob: \<open>\<not> hasTagKey TagOptional ''tfsdk:"percent_traffic" sensitive:"true"''\<close>
    by code_simp
  have r: \<open>\<not> hasTagKey TagRequired ''tfsdk:"percent_traffic" sensitive:"true"''\<close>
    by code_simp
  have v: \<open>rAttribute (OtherT ''float64'' ''float64'') ''tfsdk:"percent_traffic" sensitive:"true"'' False 1 =
     Inr \<lparr>nSchema = None, nBlock = None, nAttribute = Some
       \<lparr>aType = Float64Type, aRequired = False, aOptional = True, aComputed = False,
        aSensitive = True, aDeprecationMessage = [], aDescription = [],
        aMarkdownDescription = [], aPlanModifiers = [], aValidators = []\<rparr>\<rparr>\<close>
    by code_simp
  from attribute_defaults_to_optional[OF l c ob r v] l c ob r v show ?thesis
    by blast
qed

text \<open>
  Claim C10. For every attribute-typed field, each of the flags \<open>computed\<close>, \<open>optional\<close>,
  \<open>required\<close> and \<open>sensitive\<close> is set by its tag only when the tag's value is exactly
  \<^verbatim>\<open>true\<close>; \<open>optional\<close> is set besides by the default rule, which applies only when none of
  \<^verbatim>\<open>computed\<close>, \<^verbatim>\<open>optional\<close>, \<^verbatim>\<open>required\<close> has a non-empty value. So a field tagged only
  \<^verbatim>\<open>required:"false"\<close> compiles to an attribute with all of \<open>required\<close>, \<open>optional\<close> and
  \<open>computed\<close> false.
\<close>

theorem attribute_flags_exactly_true:
  \<open>(\<forall>model tags l fromSlice level n.
      leaf model tags = Some l \<longrightarrow> rAttribute model tags fromSlice level = Inr n \<longrightarrow>
      (\<exists>a. nAttribute n = Some a \<and>
         aComputed a = (tagValue TagComputed tags = ''true'') \<and>
         aRequired a = (tagValue TagRequired tags = ''true'') \<and>
         aSensitive a = (tagValue TagSensitive tags = ''true'') \<and>
         aOptional a = (tagValue TagOptional tags = ''true'' \<or>
            (tagValue TagComputed tags = [] \<and> tagValue TagOptional tags = [] \<and>
             tagValue TagRequired tags = [])))) \<and>
   rAttribute (StructT ''types.String'' []) ''required:"false"'' False 1 =
     Inr \<lparr>nSchema = None, nBlock = None, nAttribute = Some
       \<lparr>aType = StringType, aRequired = False, aOptional = False, aComputed = False,
        aSensitive = False, aDeprecationMessage = [], aDescription = [],
        aMarkdownDescription = [], aPlanModifiers = [], aValidators = []\<rparr>\<rparr>\<close>
proof -
  have \<open>rAttribute (StructT ''types.String'' []) ''required:"false"'' False 1 =
     Inr \<lparr>nSchema = None, nBlock = None, nAttribute = Some
       \<lparr>aType = StringType, aRequired = False, aOptional = False, aComputed = False,
        aSensitive = False, aDeprecationMessage = [], aDescription = [],
        aMarkdownDescription = [], aPlanModifiers = [], aValidators = []\<rparr>\<rparr>\<close>
    by code_simp
  moreover have "\<And>model tags l fromSlice level n.
      leaf model tags = Some l \<Longrightarrow> rAttribute model tags fromSlice level = Inr n \<Longrightarrow>
      (\<exists>a. nAttribute n = Some a \<and>
         aComputed a = (tagValue TagComputed tags = ''true'') \<and>
         aRequired a = (tagValue TagRequired tags = ''true'') \<and>
         aSensitive a = (tagValue TagSensitive tags = ''true'') \<and>
         aOptional a = (tagValue TagOptional tags = ''true'' \<or>
            (tagValue TagComputed tags = [] \<and> tagValue TagOptional tags = [] \<and>
             tagValue TagRequired tags = [])))"
    using rAttribute_leaf_flags unfolding TagTrue_def by blast
  ultimately show ?thesis by blast
qed

theorem attribute_flags_exactly_true_witness:
  \<open>leaf (OtherT ''bool'' ''bool'') ''optional:"yes" computed:"true" sensitive:"1"''
     = Some (attributeOf BoolType) \<and>
   rAttribute (OtherT ''bool'' ''bool'') ''optional:"yes" computed:"true" sensitive:"1"'' False 1 =
     Inr \<lparr>nSchema = None, nBlock = None, nAttribute = Some
       \<lparr>aType = BoolType, aRequired = False, aOptional = False, aComputed = True,
        aSensitive = False, aDeprecationMessage = [], aDescription = [],
        aMarkdownDescription = [], aPlanModifiers = [], aValidators = []\<rparr>\<rparr> \<and>
   tagValue TagComputed ''optional:"yes" computed:"true" sensitive:"1"'' = ''true'' \<and>
   tagValue TagOptional ''optional:"yes" computed:"true" sensitive:"1"'' = ''yes'' \<and>
   tagValue TagSensitive ''optional:"yes" computed:"true" sensitive:"1"'' = ''1'' \<and>
   tagValue TagRequired ''optional:"yes" computed:"true" sensitive:"1"'' = []\<close>
proof -
  have l: \<open>leaf (OtherT ''bool'' ''bool'') ''optional:"yes" computed:"true" sensitive:"1"''
     = Some (attributeOf BoolType)\<close>
    by code_simp
  have v: \<open>rAttribute (OtherT ''bool'' ''bool'') ''optional:"yes" computed:"true" sensitive:"1"'' False 1 =
     Inr \<lparr>nSchema = None, nBlock = None, nAttribute = Some
       \<lparr>aType = BoolType, aRequired = False, aOptional = False, aComputed = True,
        aSensitive = False, aDeprecationMessage = [], aDescription = [],
        aMarkdownDescription = [], aPlanModifiers = [], aValidators = []\<rparr>\<rparr>\<close>
    by code_simp
  have o: \<open>tagValue TagOptional ''optional:"yes" computed:"true" sensitive:"1"'' = ''yes''\<close>
    by code_simp
  have s: \<open>tagValue TagSensitive ''optional:"yes" computed:"true" sensitive:"1"'' = ''1''\<close>
    by code_simp
  from attribute_flags_exactly_true l v
  have \<open>\<exists>a. nAttribute \<lparr>nSchema = None, nBlock = None, nAttribute = Some
       \<lparr>aType = BoolType, aRequired = False, aOptional = False, aComputed = True,
        aSensitive = False, aDeprecationMessage = [], aDescription = [],
        aMarkdownDescription = [], aPlanModifiers = [], aValidators = []\<rparr>\<rparr> = Some a \<and>
         aComputed a = (tagValue TagComputed ''optional:"yes" computed:"true" sensitive:"1"'' = ''true'') \<and>
         aRequired a = (tagValue TagRequired ''optional:"yes" computed:"true" sensitive:"1"'' = ''true'') \<and>
         aSensitive a = (tagValue TagSensitive ''optional:"yes" computed:"true" sensitive:"1"'' = ''true'') \<and>
         aOptional a = (tagValue TagOptional ''optional:"yes" computed:"true" sensitive:"1"'' = ''true'' \<or>
            (tagValue TagComputed ''optional:"yes" computed:"true" sensitive:"1"'' = [] \<and>
             tagValue TagOptional ''optional:"yes" computed:"true" sensitive:"1"'' = [] \<and>
             tagValue TagRequired ''optional:"yes" computed:"true" sensitive:"1"'' = []))\<close>
    by blast
  then have \<open>tagValue TagComputed ''optional:"yes" computed:"true" sensitive:"1"'' = ''true''\<close>
    and \<open>tagValue TagRequired ''optional:"yes" computed:"true" sensitive:"1"'' \<noteq> ''true''\<close>
    by simp_all
  moreover have \<open>tagValue TagRequired ''optional:"yes" computed:"true" sensitive:"1"'' = []\<close>
    by code_simp
  ultimately show ?thesis using l v o s by simp
qed
section \<open>Plan modifiers\<close>




text \<open>
  Claim C4 holds for the types \<^verbatim>\<open>bool\<close>, \<^verbatim>\<open>float64\<close>, \<^verbatim>\<open>int64\<close>, \<^verbatim>\<open>types.Number\<close> and
  \<^verbatim>\<open>string\<close>, but not for plain \<^verbatim>\<open>int\<close>: the leaf resolver gives an \<^verbatim>\<open>int\<close> field the
  value type \<open>Int64Type\<close>, while \<open>pMods\<close> lists \<^verbatim>\<open>int\<close> in the case of \<^verbatim>\<open>types.Number\<close>, so that
  \<^verbatim>\<open>default(12)\<close> is parsed as a float and stored as a \<open>NumberValue\<close>, and \<^verbatim>\<open>default(1.5)\<close> is
  accepted. The same term on an \<^verbatim>\<open>int64\<close> field gives an \<open>Int64Value\<close>.
\<close>

theorem pMods_default_int_is_number:
  \<open>rAttribute (OtherT ''int'' ''int'') ''pmods:"default(12)"'' False 1 =
     Inr \<lparr>nSchema = None, nBlock = None, nAttribute = Some
       \<lparr>aType = Int64Type, aRequired = False, aOptional = True, aComputed = False,
        aSensitive = False, aDeprecationMessage = [], aDescription = [],
        aMarkdownDescription = [],
        aPlanModifiers = [DefaultValue (NumberValue (BigFinite 12))],
        aValidators = []\<rparr>\<rparr> \<and>
   rAttribute (OtherT ''int64'' ''int64'') ''pmods:"default(12)"'' False 1 =
     Inr \<lparr>nSchema = None, nBlock = None, nAttribute = Some
       \<lparr>aType = Int64Type, aRequired = False, aOptional = True, aComputed = False,
        aSensitive = False, aDeprecationMessage = [], aDescription = [],
        aMarkdownDescription = [],
        aPlanModifiers = [DefaultValue (Int64Value 12)],
        aValidators = []\<rparr>\<rparr> \<and>
   pMods ''default(1.5)'' ''int'' = Inr [DefaultValue (NumberValue (BigFinite (3 / 2)))] \<and>
   pMods ''default(1.5)'' ''int64'' = Inl (PanicDefaultNumber ''1.5'' ErrSyntax)\<close>
proof -
  have a: \<open>rAttribute (OtherT ''int'' ''int'') ''pmods:"default(12)"'' False 1 =
     Inr \<lparr>nSchema = None, nBlock = None, nAttribute = Some
       \<lparr>aType = Int64Type, aRequired = False, aOptional = True, aComputed = False,
        aSensitive = False, aDeprecationMessage = [], aDescription = [],
        aMarkdownDescription = [],
        aPlanModifiers = [DefaultValue (NumberValue (BigFinite 12))],
        aValidators = []\<rparr>\<rparr>\<close>
    by code_simp
  have b: \<open>rAttribute (OtherT ''int64'' ''int64'') ''pmods:"default(12)"'' False 1 =
     Inr \<lparr>nSchema = None, nBlock = None, nAttribute = Some
       \<lparr>aType = Int64Type, aRequired = False, aOptional = True, aComputed = False,
        aSensitive = False, aDeprecationMessage = [], aDescription = [],
        aMarkdownDescription = [],
        aPlanModifiers = [DefaultValue (Int64Value 12)],
        aValidators = []\<rparr>\<rparr>\<close>
    by code_simp
  have c: \<open>pMods ''default(1.5)'' ''int'' = Inr [DefaultValue (NumberValue (BigFinite (3 / 2)))]\<close>
    by code_simp
  have d: \<open>pMods ''default(1.5)'' ''int64'' = Inl (PanicDefaultNumber ''1.5'' ErrSyntax)\<close>
    by code_simp
  from a b c d show ?thesis by blast
qed
section \<open>Implicit size validators of blocks\<close>

lemma oneOfValidator_block: "oneOfValidator v SpecialTypeBlock tags = Inr None"
  by (simp add: oneOfValidator_def Let_def SpecialTypeBlock_def)

lemma noneOfValidator_block: "noneOfValidator v SpecialTypeBlock tags = Inr None"
  by (simp add: noneOfValidator_def Let_def SpecialTypeBlock_def)

lemma validators_block_no_between:
  "\<not> hasTagArg TagValidatorBetween tagV \<Longrightarrow>
   validators tagV SpecialTypeBlock fromSlice tags = Inr (blockSizeValidators [] fromSlice tags)"
  by (simp add: validators_def Let_def oneOfValidator_block noneOfValidator_block
        appendValidator_def)

lemma addBlockOptions_validators:
  "addBlockOptions b slice tags = Inr b' \<Longrightarrow>
   validators (tagValue TagValidators tags) SpecialTypeBlock slice tags = Inr (bValidators b') \<and>
   bNestingMode b' = (if tagValue TagCollection tags = TagCollectionSet
                      then BlockNestingModeSet else BlockNestingModeList)"
  by (cases b) (auto simp: Let_def split: sum.splits if_splits)

lemma rAttribute_struct_block:
  assumes "leaf (StructT n fs) tags = None" and "0 < level"
    and "rAttribute (StructT n fs) tags fromSlice level = Inr nst"
  shows "\<exists>b. nBlock nst = Some b \<and> nAttribute nst = None \<and> nSchema nst = None \<and>
     validators (tagValue TagValidators tags) SpecialTypeBlock fromSlice tags = Inr (bValidators b) \<and>
     bNestingMode b = (if tagValue TagCollection tags = TagCollectionSet
                       then BlockNestingModeSet else BlockNestingModeList)"
proof -
  from assms obtain attrs blocks where "blockNest blocks attrs fromSlice tags = Inr nst"
    by (auto split: sum.splits)
  then obtain b where
    b: "addBlockOptions (Block BlockNestingModeUnknown attrs blocks [] [] [] [] []) fromSlice tags = Inr b"
    and n: "nst = \<lparr>nSchema = None, nBlock = Some b, nAttribute = None\<rparr>"
    by (auto simp: blockNest_def split: sum.splits)
  from addBlockOptions_validators[OF b] n show ?thesis by simp
qed

text \<open>The size rule in the words of the specification: \<open>min\<close> is 1 for a field tagged
  \<^verbatim>\<open>required:"true"\<close> and 0 otherwise, the validator is of the set family exactly for
  \<^verbatim>\<open>collection:"set"\<close>, and it is \<open>SizeBetween(min, 1)\<close> outside a slice, \<open>SizeAtLeast(min)\<close> in
  a slice with \<open>min > 0\<close>, and absent in a slice with \<open>min = 0\<close>.\<close>

definition specBlockSize :: "bool \<Rightarrow> string \<Rightarrow> validator list" where
  \<open>specBlockSize fromSlice tags =
     (let min = (if tagValue ''required'' tags = ''true'' then 1 else 0 :: int);
          isSet = (tagValue ''collection'' tags = ''set'')
      in if \<not> fromSlice then [if isSet then SetSizeBetween min 1 else ListSizeBetween min 1]
         else if 0 < min then [if isSet then SetSizeAtLeast min else ListSizeAtLeast min]
         else [])\<close>

lemma blockSizeValidators_spec: "blockSizeValidators [] fromSlice tags = specBlockSize fromSlice tags"
  by (simp add: blockSizeValidators_def specBlockSize_def Let_def Tag_defs)

text \<open>A field is a block when the leaf resolver does not take it and it is a struct
  (\<open>slice = False\<close>) or a slice of such structs (\<open>slice = True\<close>).\<close>

definition blockField :: "gotype \<Rightarrow> string \<Rightarrow> bool \<Rightarrow> bool" where
  "blockField model tags slice =
     (leaf model tags = None \<and>
      (case model of
         StructT n fs \<Rightarrow> \<not> slice
       | SliceT n t \<Rightarrow> slice \<and> isStruct t \<and> leaf t tags = None
       | _ \<Rightarrow> False))"

text \<open>
  Claim C2. For every block (a struct-typed or slice-of-struct field, at depth \<open>> 0\<close>) whose
  \<^verbatim>\<open>valid\<close> tag has no \<^verbatim>\<open>between\<close> term, the validators of the compiled block are exactly the
  implicit size validator of the specification: with \<open>min = 1\<close> for \<^verbatim>\<open>required:"true"\<close> and
  \<open>min = 0\<close> otherwise, and the set family exactly for \<^verbatim>\<open>collection:"set"\<close>, it is
  \<open>SizeBetween(min, 1)\<close> when the block does not come from a slice, \<open>SizeAtLeast(min)\<close> when it
  comes from a slice and \<open>min > 0\<close>, and no validator when it comes from a slice and \<open>min = 0\<close>.
\<close>

theorem block_implicit_size_validator:
  assumes "blockField model tags slice"
    and "0 < level"
    and "\<not> hasTagArg TagValidatorBetween (tagValue TagValidators tags)"
    and "rAttribute model tags False level = Inr nst"
  shows "\<exists>b. nBlock nst = Some b \<and> bValidators b = specBlockSize slice tags \<and>
     bNestingMode b = (if tagValue TagCollection tags = TagCollectionSet
                       then BlockNestingModeSet else BlockNestingModeList)"
proof (cases model)
  case (StructT n fs)
  with assms(1) have l: "leaf (StructT n fs) tags = None" and s: "\<not> slice"
    by (simp_all add: blockField_def)
  from rAttribute_struct_block[OF l assms(2) assms(4)[unfolded StructT]]
  show ?thesis
    using s by (auto simp: validators_block_no_between[OF assms(3)] blockSizeValidators_spec)
next
  case (SliceT n t)
  with assms(1) have l: "leaf (SliceT n t) tags = None" and s: "slice" and st: "isStruct t"
    and lt: "leaf t tags = None"
    by (simp_all add: blockField_def)
  from st obtain n' fs where t: "t = StructT n' fs"
    by (cases t) simp_all
  from assms(4) l st have "rAttribute (StructT n' fs) tags True (Suc level) = Inr nst"
    by (simp add: SliceT t)
  from rAttribute_struct_block[OF lt[unfolded t] _ this]
  show ?thesis
    using s by (auto simp: validators_block_no_between[OF assms(3)] blockSizeValidators_spec)
next
  case (MapT n)
  with assms(1) show ?thesis by (simp add: blockField_def)
next
  case (OtherT n k)
  with assms(1) show ?thesis by (simp add: blockField_def)
qed

theorem block_implicit_size_validator_witness:
  \<open>blockField (SliceT ''[]struct { Field types.String }''
       (StructT ''struct { Field types.String }''
          [Field ''Field'' (StructT ''types.String'' []) ''tfsdk:"field" required:"true"'']))
     ''tfsdk:"criterion" required:"true" collection:"set"'' True \<and>
   \<not> hasTagArg TagValidatorBetween
        (tagValue TagValidators ''tfsdk:"criterion" required:"true" collection:"set"'') \<and>
   rAttribute (SliceT ''[]struct { Field types.String }''
       (StructT ''struct { Field types.String }''
          [Field ''Field'' (StructT ''types.String'' []) ''tfsdk:"field" required:"true"'']))
     ''tfsdk:"criterion" required:"true" collection:"set"'' False 1 =
     Inr \<lparr>nSchema = None,
          nBlock = Some (Block BlockNestingModeSet
            [(''field'', \<lparr>aType = StringType, aRequired = True, aOptional = False,
                aComputed = False, aSensitive = False, aDeprecationMessage = [],
                aDescription = [], aMarkdownDescription = [], aPlanModifiers = [],
                aValidators = []\<rparr>)]
            [] [] [] [] [] [SetSizeAtLeast 1]),
          nAttribute = None\<rparr> \<and>
   specBlockSize True ''tfsdk:"criterion" required:"true" collection:"set"'' = [SetSizeAtLeast 1]\<close>
proof -
  have f: \<open>blockField (SliceT ''[]struct { Field types.String }''
       (StructT ''struct { Field types.String }''
          [Field ''Field'' (StructT ''types.String'' []) ''tfsdk:"field" required:"true"'']))
     ''tfsdk:"criterion" required:"true" collection:"set"'' True\<close>
    by code_simp
  have h: \<open>\<not> hasTagArg TagValidatorBetween
        (tagValue TagValidators ''tfsdk:"criterion" required:"true" collection:"set"'')\<close>
    by code_simp
  have r: \<open>rAttribute (SliceT ''[]struct { Field types.String }''
       (StructT ''struct { Field types.String }''
          [Field ''Field'' (StructT ''types.String'' []) ''tfsdk:"field" required:"true"'']))
     ''tfsdk:"criterion" required:"true" collection:"set"'' False 1 =
     Inr \<lparr>nSchema = None,
          nBlock = Some (Block BlockNestingModeSet
            [(''field'', \<lparr>aType = StringType, aRequired = True, aOptional = False,
                aComputed = False, aSensitive = False, aDeprecationMessage = [],
                aDescription = [], aMarkdownDescription = [], aPlanModifiers = [],
                aValidators = []\<rparr>)]
            [] [] [] [] [] [SetSizeAtLeast 1]),
          nAttribute = None\<rparr>\<close>
    by code_simp
  from block_implicit_size_validator[OF f _ h r]
  have \<open>specBlockSize True ''tfsdk:"criterion" required:"true" collection:"set"'' = [SetSizeAtLeast 1]\<close>
    by simp
  with f h r show ?thesis by simp
qed
section \<open>Numeric arguments are not trimmed\<close>

lemma Split_nonempty: "Split s sep \<noteq> []"
  by (induction s) (auto split: list.splits)

lemma Split_member:
  "c \<in> set s \<Longrightarrow> c \<noteq> sep \<Longrightarrow> \<exists>a \<in> set (Split s sep). c \<in> set a"
proof (induction s)
  case Nil
  then show ?case by simp
next
  case (Cons x xs)
  show ?case
  proof (cases "x = sep")
    case True
    with Cons show ?thesis by auto
  next
    case False
    obtain p ps where sp: "Split xs sep = p # ps"
      using Split_nonempty[of xs sep] by (cases "Split xs sep") auto
    with False have e: "Split (x # xs) sep = (x # p) # ps" by simp
    show ?thesis
    proof (cases "c = x")
      case True
      with e show ?thesis by simp
    next
      case False
      with Cons have "\<exists>a \<in> set (Split xs sep). c \<in> set a" by simp
      with sp e show ?thesis by auto
    qed
  qed
qed

lemma parseArgs_Inl:
  "a \<in> set args \<Longrightarrow> parse a = Inl e \<Longrightarrow> \<exists>e'. parseArgs parse args = Inl e'"
  by (induction args) (auto split: sum.splits)

text \<open>No loop of \<open>readFloat\<close> reads a space.\<close>

lemma readDigits_space:
  "readDigits hex sawdot sawdigits us m f s = (a, b, c, d, rest) \<Longrightarrow> CHR '' '' \<in> set s
   \<Longrightarrow> CHR '' '' \<in> set rest"
proof (induction hex sawdot sawdigits us m f s rule: readDigits.induct)
  case (1 hex sawdot sawdigits us m f)
  then show ?case by simp
next
  case (2 hex sawdot sawdigits us m f x xs)
  have n: "\<not> isDigit (CHR '' '')" "\<not> isHexLetter (CHR '' '')"
    by (simp_all add: isDigit_def isHexLetter_def)
  show ?case
  proof (cases "x = CHR '' ''")
    case True
    with 2(5) n show ?thesis by auto
  next
    case False
    with 2(6) have xs: "CHR '' '' \<in> set xs" by simp
    show ?thesis
      using 2(1-4) 2(5) xs by (auto split: if_splits)
  qed
qed

lemma readExpDigits_space:
  "readExpDigits us e s = (a, b, rest) \<Longrightarrow> CHR '' '' \<in> set s \<Longrightarrow> CHR '' '' \<in> set rest"
proof (induction us e s rule: readExpDigits.induct)
  case (1 us e)
  then show ?case by simp
next
  case (2 us e x xs)
  have n: "\<not> isDigit (CHR '' '')"
    by (simp add: isDigit_def)
  show ?case
  proof (cases "x = CHR '' ''")
    case True
    with 2(3) n show ?thesis by auto
  next
    case False
    with 2(4) have xs: "CHR '' '' \<in> set xs" by simp
    show ?thesis
      using 2(1,2) 2(3) xs by (auto split: if_splits)
  qed
qed

lemma tl_space: "CHR '' '' \<in> set s \<Longrightarrow> hd s \<noteq> CHR '' '' \<Longrightarrow> CHR '' '' \<in> set (tl s)"
  by (cases s) auto

lemma drop2_space:
  "CHR '' '' \<in> set s \<Longrightarrow> hd s \<noteq> CHR '' '' \<Longrightarrow> s ! 1 \<noteq> CHR '' '' \<Longrightarrow> 2 < length s
   \<Longrightarrow> CHR '' '' \<in> set (drop 2 s)"
  by (cases s; cases "tl s") auto

lemma readFloat_space:
  assumes "readFloat s = Some (neg, hex, m, f, e, rest)" and "CHR '' '' \<in> set s"
  shows "CHR '' '' \<in> set rest"
proof -
  from assms(2) have ne: "s \<noteq> []" by auto
  define s1 where "s1 = (if isSign (hd s) then tl s else s)"
  define hx where "hx = (2 < length s1 \<and> hd s1 = CHR ''0'' \<and> s1 ! 1 \<in> set ''xX'')"
  define s2 where "s2 = (if hx then drop 2 s1 else s1)"
  have sp1: "CHR '' '' \<in> set s1"
    using assms(2) by (auto simp: s1_def isSign_def intro: tl_space)
  have sp2: "CHR '' '' \<in> set s2"
    using sp1 by (auto simp: s2_def hx_def intro!: drop2_space)
  obtain sawdigits us m' f' s3 where rd: "readDigits hx False False False 0 0 s2 = (sawdigits, us, m', f', s3)"
    by (metis prod_cases5)
  have sp3: "CHR '' '' \<in> set s3"
    using readDigits_space[OF rd sp2] .
  have r: "readFloat s =
      (if \<not> sawdigits then None
               else if s3 \<noteq> [] \<and> hd s3 \<in> set (if hx then ''pP'' else ''eE'') then
                 (let s4 = tl s3
                  in if s4 = [] then None
                     else
                       let esign = (if hd s4 = CHR ''-'' then - 1 else 1 :: int);
                           s5 = (if isSign (hd s4) then tl s4 else s4)
                       in if s5 = [] \<or> \<not> isDigit (hd s5) then None
                          else case readExpDigits us 0 s5 of
                                 (us', e, s6) \<Rightarrow>
                                   if us' \<and> \<not> underscoreOK (take (length s - length s6) s)
                                   then None
                                   else Some (hd s = CHR ''-'', hx, m', f', esign * e, s6))
               else if hx then None
               else if us \<and> \<not> underscoreOK (take (length s - length s3) s) then None
               else Some (hd s = CHR ''-'', hx, m', f', 0, s3))"
    using ne rd unfolding readFloat_def Let_def s1_def[symmetric] hx_def[symmetric] s2_def[symmetric]
    by simp
  show ?thesis
  proof (cases "s3 \<noteq> [] \<and> hd s3 \<in> set (if hx then ''pP'' else ''eE'')")
    case False
    with assms(1) r sp3 show ?thesis by (auto split: if_splits)
  next
    case True
    define s4 where "s4 = tl s3"
    define s5 where "s5 = (if isSign (hd s4) then tl s4 else s4)"
    from True have "hd s3 \<noteq> CHR '' ''" by (auto split: if_splits)
    with sp3 have sp4: "CHR '' '' \<in> set s4" by (simp add: s4_def tl_space)
    then have sp5: "CHR '' '' \<in> set s5"
      by (auto simp: s5_def isSign_def intro: tl_space)
    obtain us' e' s6 where re: "readExpDigits us 0 s5 = (us', e', s6)"
      by (metis prod_cases3)
    have sp6: "CHR '' '' \<in> set s6"
      using readExpDigits_space[OF re sp5] .
    from assms(1) r True re have "rest = s6"
      unfolding Let_def s4_def[symmetric] s5_def[symmetric]
      by (auto split: if_splits)
    with sp6 show ?thesis by simp
  qed
qed

lemma commonPrefixLen_nth:
  assumes "i < commonPrefixLenIgnoreCase s pre"
  shows "(if isUpperAZ (s ! i) then char_of (of_char (s ! i) + (32 :: nat)) else s ! i) \<in> set pre"
proof -
  let ?P = "\<lambda>(c, p). (if isUpperAZ c then char_of (of_char c + (32 :: nat)) else c) = p"
  let ?t = "takeWhile ?P (zip s pre)"
  from assms have i: "i < length ?t" by (simp add: commonPrefixLenIgnoreCase_def)
  then have "?t ! i \<in> set ?t" by simp
  then have "?P (?t ! i)" "?t ! i \<in> set (zip s pre)"
    by (auto dest: set_takeWhileD)
  moreover have "?t ! i = zip s pre ! i" using i by (rule takeWhile_nth)
  moreover have "i < length (zip s pre)"
    using i length_takeWhile_le[of ?P "zip s pre"] by linarith
  ultimately show ?thesis by (auto simp: in_set_zip)
qed

lemma commonPrefixLen_le: "commonPrefixLenIgnoreCase s pre \<le> length s"
  unfolding commonPrefixLenIgnoreCase_def
  using length_takeWhile_le[of _ "zip s pre"] by (metis le_trans length_zip min.cobounded1)

lemma commonPrefixLen_space:
  assumes "i < commonPrefixLenIgnoreCase s pre" and "CHR '' '' \<notin> set pre"
  shows "s ! i \<noteq> CHR '' ''"
proof
  assume "s ! i = CHR '' ''"
  with commonPrefixLen_nth[OF assms(1)] have "CHR '' '' \<in> set pre"
    by (simp add: isUpperAZ_def)
  with assms(2) show False by simp
qed

lemma special_space:
  assumes "special s = Some (v, n)" and "CHR '' '' \<in> set s"
  shows "n \<noteq> length s"
proof
  assume n: "n = length s"
  from assms(2) obtain i where i: "i < length s" "s ! i = CHR '' ''"
    by (auto simp: in_set_conv_nth)
  from assms(2) have ne: "s \<noteq> []" by auto
  show False
  proof (cases "isSign (hd s) \<or> hd s = CHR ''i'' \<or> hd s = CHR ''I''")
    case True
    define nsign where "nsign = (if isSign (hd s) then 1 else 0 :: nat)"
    define n0 where "n0 = commonPrefixLenIgnoreCase (drop nsign s) ''infinity''"
    define k where "k = (if 3 < n0 \<and> n0 < 8 then 3 else n0)"
    from assms(1) ne True have "n = nsign + k"
      unfolding special_def Let_def nsign_def[symmetric] n0_def[symmetric] k_def[symmetric]
      by (auto split: if_splits)
    with n have len: "length s = nsign + k" by simp
    have kn: "k \<le> n0" by (simp add: k_def)
    show False
    proof (cases "i < nsign")
      case True
      then have "i = 0" "isSign (hd s)" by (auto simp: nsign_def split: if_splits)
      with i ne show False by (simp add: hd_conv_nth isSign_def)
    next
      case False
      with i len kn have "i - nsign < n0" by simp
      from commonPrefixLen_space[OF this[unfolded n0_def]]
      have "drop nsign s ! (i - nsign) \<noteq> CHR '' ''" by simp
      moreover have "drop nsign s ! (i - nsign) = s ! i"
        using False i by simp
      ultimately show False using i by simp
    qed
  next
    case False
    with assms(1) ne have n3: "n = 3" and c: "commonPrefixLenIgnoreCase s ''nan'' = 3"
      by (auto simp: special_def Let_def split: if_splits)
    with n i have "i < commonPrefixLenIgnoreCase s ''nan''" by simp
    from commonPrefixLen_space[OF this] i show False by simp
  qed
qed

text \<open>\<open>ParseFloat\<close> accepts no string with a space in it: Go's syntax of floating-point
  literals has none.\<close>

lemma ParseFloat_space: "CHR '' '' \<in> set s \<Longrightarrow> ParseFloat s = Inl ErrSyntax"
  unfolding ParseFloat_def
  by (auto split: option.splits dest: special_space readFloat_space)

end
